theory Spec2Isabelle
  imports Complex_Main
begin

section \<open>The synchronisation and snapshot pipeline of symmio-analytics\<close>

text \<open>
  A shallow embedding of \<^verbatim>\<open>services/snapshot/snapshot_job.py\<close> (\<^verbatim>\<open>fetch_snapshot\<close>,
  \<^verbatim>\<open>sync_data\<close>, \<^verbatim>\<open>do_fetch_snapshot\<close>), of
  \<^verbatim>\<open>services/snapshot/hedger_binance_snapshot.py\<close> (\<^verbatim>\<open>prepare_hedger_binance_snapshot\<close>)
  and of \<^verbatim>\<open>BaseModel.save\<close> and \<^verbatim>\<open>BaseModel.upsert\<close> of \<^verbatim>\<open>app/models.py\<close>.

  Conventions of the model:
  \<^item> Python integers are \<open>int\<close>. Amounts (the \<^verbatim>\<open>Float\<close> column \<^verbatim>\<open>BinanceIncome.amount\<close>,
    \<^verbatim>\<open>float(...)\<close> and \<^verbatim>\<open>Decimal(...)\<close> values) are exact rationals: the theorems are
    about which rows are summed and which formula is applied, not about the rounding of
    binary floats or of the 28-digit decimal context.
  \<^item> A \<^verbatim>\<open>DateTime\<close> is an \<open>int\<close>, the number of microseconds since the epoch, so
    \<^verbatim>\<open>timedelta(minutes=3)\<close> is \<open>180000000\<close>.
  \<^item> An exception is a value of type \<open>error\<close>; a function that can raise returns a pair
    of \<open>error + 'a\<close> and the state in which it stopped.
  \<^item> The services the code talks to (chain node, indexer, exchange) are not part of the
    sources. Their answers are parameters of the model: the record \<open>environment\<close> gives
    the answer to the k-th call, and the state counts the calls made. A call of the
    indexer can raise, since \<^verbatim>\<open>sync_data\<close> catches what it raises; a call of the chain
    node or of the exchange answers.
\<close>

subsection \<open>Strings: \<^verbatim>\<open>in\<close> and \<^verbatim>\<open>re.search\<close>\<close>

definition startswith :: "string \<Rightarrow> string \<Rightarrow> bool" where
  "startswith s p = (take (length p) s = p)"

text \<open>\<^verbatim>\<open>p in s\<close> on Python strings: \<open>p\<close> occurs at some position of \<open>s\<close>.\<close>

fun str_contains :: "string \<Rightarrow> string \<Rightarrow> bool" where
  "str_contains p [] = (p = [])"
| "str_contains p (c # cs) = (startswith (c # cs) p \<or> str_contains p cs)"

definition is_digit :: "char \<Rightarrow> bool" where
  "is_digit c = (c \<in> set ''0123456789'')"

definition digit_value :: "char \<Rightarrow> nat" where
  "digit_value c = of_char c - 48"

text \<open>\<^verbatim>\<open>int(ds)\<close> for a non-empty string of ASCII digits.\<close>

definition int_of_digits :: "string \<Rightarrow> int" where
  "int_of_digits ds = int (foldl (\<lambda>a c. 10 * a + digit_value c) 0 ds)"

definition indexed_pattern :: string where
  "indexed_pattern = ''indexed up to block number ''"

text \<open>
  The regular expression \<^verbatim>\<open>indexed up to block number (\d+)\<close> tried at the start of \<open>s\<close>:
  the literal text, then the longest non-empty run of digits, which is group 1.
  (\<^verbatim>\<open>\d\<close> is taken as an ASCII digit.)
\<close>

definition match_here :: "string \<Rightarrow> string option" where
  "match_here s =
     (if startswith s indexed_pattern
      then (let ds = takeWhile is_digit (drop (length indexed_pattern) s)
            in if ds = [] then None else Some ds)
      else None)"

text \<open>\<^verbatim>\<open>re.search\<close>: the leftmost position at which the expression matches.\<close>

fun re_search :: "string \<Rightarrow> string option" where
  "re_search [] = None"
| "re_search (c # cs) =
     (case match_here (c # cs) of Some g \<Rightarrow> Some g | None \<Rightarrow> re_search cs)"

subsection \<open>Data model\<close>

datatype entity = User | Symbol | Account | BalanceChange | Quote | TradeHistory | DailyHistory

text \<open>
  \<^verbatim>\<open>RuntimeConfiguration\<close>, the one configuration row of a tenant. The class in
  \<^verbatim>\<open>app/models.py\<close> declares no column for the three fields that \<^verbatim>\<open>sync_data\<close> and
  \<^verbatim>\<open>do_fetch_snapshot\<close> read and write; they are taken as integer fields of the row, as
  the jobs use them. The other columns are never touched by the code modelled here.
\<close>

record runtime_configuration =
  lastSyncBlock :: int
  lastSnapshotBlock :: int
  snapshotBlockLag :: int

text \<open>
  \<^verbatim>\<open>utils.block.Block\<close> is not among the sources. A block is its number, its
  \<^verbatim>\<open>datetime()\<close> and the answer of \<^verbatim>\<open>is_for_past()\<close>.
\<close>

record block =
  block_number :: int
  block_datetime :: int
  is_for_past :: bool

record binance_income =
  income_type :: string
  income_amount :: rat
  income_timestamp :: int
  income_tenant :: string
  income_hedger :: string

text \<open>
  The content of a \<^verbatim>\<open>StatsBotMessage\<close>, read by key in the past-block branch:
  \<^verbatim>\<open>"Total Maint. Margin"\<close>, \<^verbatim>\<open>"Total Margin Balance"\<close>, \<^verbatim>\<open>"Health Ratio"\<close>,
  \<^verbatim>\<open>"Total Cross UnPnl"\<close>, \<^verbatim>\<open>"Available Balance"\<close>, \<^verbatim>\<open>"Total Initial Margin"\<close>,
  \<^verbatim>\<open>"Max Withdraw Amount"\<close>. A message that holds all seven keys is a record of them.
\<close>

record stats_content =
  Total_Maint_Margin :: rat
  Total_Margin_Balance :: rat
  Health_Ratio :: rat
  Total_Cross_UnPnl :: rat
  Available_Balance :: rat
  Total_Initial_Margin :: rat
  Max_Withdraw_Amount :: rat

record stats_bot_message =
  message_timestamp :: int
  message_content :: stats_content
  message_tenant :: string

text \<open>
  The row built by \<^verbatim>\<open>HedgerBinanceSnapshot(**snapshot)\<close>: one field for each attribute
  the reconciler sets. \<^verbatim>\<open>binance_next_funding_fee\<close> is set on live blocks only, so it
  is optional.
\<close>

record hedger_binance_snapshot =
  binance_deposit :: rat
  binance_maintenance_margin :: rat
  binance_total_balance :: rat
  binance_account_health_ratio :: rat
  binance_cross_upnl :: rat
  binance_av_balance :: rat
  binance_total_initial_margin :: rat
  binance_max_withdraw_amount :: rat
  max_open_interest :: rat
  binance_profit :: rat
  binance_trade_volume :: rat
  binance_paid_funding_fee :: rat
  binance_received_funding_fee :: rat
  binance_next_funding_fee :: "rat option"
  timestamp :: int
  name :: string
  tenant :: string
  snapshot_block_number :: int

text \<open>The answer of \<^verbatim>\<open>binance_client.futures_account(version=2)\<close>, already parsed.\<close>

record binance_account =
  totalMaintMargin :: rat
  totalMarginBalance :: rat
  totalCrossUnPnl :: rat
  availableBalance :: rat
  totalInitialMargin :: rat
  maxWithdrawAmount :: rat

text \<open>One entry of \<^verbatim>\<open>binance_client.futures_position_information()\<close>.\<close>

record position =
  notional :: rat
  symbol :: string
  positionSide :: string

record hedger_context =
  hedger_name :: string
  binance_deposit_diff :: rat
  hedger_max_open_interest_ratio :: rat
  has_binance_keys :: bool
  futures_account :: binance_account
  futures_position_information :: "position list"

record tenant_context =
  context_tenant :: string
  affiliates :: "string list"
  hedgers :: "hedger_context list"
  liquidators :: "string list"
  get_snapshot :: bool

text \<open>The constants of \<^verbatim>\<open>config.settings\<close> that the jobs read.\<close>

record settings =
  SNAPSHOT_BLOCK_LAG :: int
  SNAPSHOT_BLOCK_LAG_STEP :: int
  CHAIN_ONLY :: bool
  IGNORE_BINANCE_TRADE_VOLUME :: bool

datatype sync_outcome = Synced | Raised string

text \<open>The calls that leave the job, in the order they are made.\<close>

datatype call =
    FuturesAccount string
  | FuturesPositionInformation string
  | RealTimeFundingRate string
  | PrepareAffiliateSnapshot string string
  | PrepareLiquidatorSnapshot string
  | PrepareHedgerSnapshot string
  | FetchBinanceIncomeHistories string
  | PrepareHedgerBinanceSnapshot string

datatype error =
    SyncError string
  | AttributeError
  | StaleSnapshot
  | StatBotMessageNotFound
  | DivisionByZero
  | InvalidOperation
  | IntegrityError
  | ReconcilerError string

text \<open>
  The state: the session's view of the configuration row and the committed one, the tables
  the reconciler reads, the snapshot table, the rows added to the session and not yet
  flushed, and the counters and logs of the calls made.
\<close>

record world =
  config_row :: runtime_configuration
  committed_config :: runtime_configuration
  binance_income_rows :: "binance_income list"
  stats_bot_messages :: "stats_bot_message list"
  snapshot_rows :: "hedger_binance_snapshot list"
  pending :: "hedger_binance_snapshot list"
  head_reads :: nat
  sync_calls :: nat
  sync_log :: "(entity \<times> int) list"
  trace :: "call list"

record environment =
  latest_number :: "nat \<Rightarrow> int"
  datetime_of :: "int \<Rightarrow> int"
  past_of :: "int \<Rightarrow> bool"
  subgraph_sync :: "nat \<Rightarrow> sync_outcome"
  real_time_funding_rate :: "string \<Rightarrow> rat"
  calculate_binance_trade_volume :: "string \<Rightarrow> block \<Rightarrow> rat"

subsection \<open>The block resolver: \<^verbatim>\<open>sync_data\<close>\<close>

text \<open>
  Modelled from the spec: \<^verbatim>\<open>Block.latest\<close> and \<^verbatim>\<open>Block.backward\<close> of \<^verbatim>\<open>utils/block.py\<close>,
  which is not among the sources. \<^verbatim>\<open>Block.latest(w3)\<close> reads the chain head;
  \<^verbatim>\<open>backward(n)\<close> moves to the block \<open>n\<close> numbers earlier
  (``target = currentChainHead - tenantConfig.snapshotBlockLag'').
\<close>

definition get_block :: "environment \<Rightarrow> int \<Rightarrow> block" where
  "get_block env n = \<lparr>block_number = n, block_datetime = datetime_of env n, is_for_past = past_of env n\<rparr>"

definition Block_latest :: "environment \<Rightarrow> world \<Rightarrow> block \<times> world" where
  "Block_latest env w =
     (get_block env (latest_number env (head_reads w)), w\<lparr>head_reads := Suc (head_reads w)\<rparr>)"

definition backward :: "environment \<Rightarrow> block \<Rightarrow> int \<Rightarrow> block" where
  "backward env b n = get_block env (block_number b - n)"

text \<open>
  \<^verbatim>\<open>load_config\<close>, \<^verbatim>\<open>config.upsert(session)\<close> and \<^verbatim>\<open>session.commit()\<close> on the
  configuration row. \<^verbatim>\<open>sync_data\<close> runs first on the session \<^verbatim>\<open>fetch_snapshot\<close> opens,
  when no snapshot row has been added to it, so its commits make the configuration durable
  and nothing else.
\<close>

definition load_config :: "world \<Rightarrow> runtime_configuration" where
  "load_config w = config_row w"

definition upsert :: "runtime_configuration \<Rightarrow> world \<Rightarrow> world" where
  "upsert c w = w\<lparr>config_row := c\<rparr>"

definition commit_config :: "world \<Rightarrow> world" where
  "commit_config w = w\<lparr>committed_config := config_row w\<rparr>"

definition entity_order :: "entity list" where
  "entity_order = [User, Symbol, Account, BalanceChange, Quote, TradeHistory, DailyHistory]"

text \<open>
  The body of the \<^verbatim>\<open>try\<close>: \<^verbatim>\<open>SubgraphClient(context, E).sync(session, sync_block)\<close> for each
  entity in turn; the first call that raises ends it with the message of the exception.
\<close>

fun sync_entities :: "environment \<Rightarrow> int \<Rightarrow> entity list \<Rightarrow> world \<Rightarrow> (string + unit) \<times> world" where
  "sync_entities env target [] w = (Inr (), w)"
| "sync_entities env target (e # es) w =
     (let w' = w\<lparr>sync_calls := Suc (sync_calls w), sync_log := sync_log w @ [(e, target)]\<rparr>
      in case subgraph_sync env (sync_calls w) of
           Raised msg \<Rightarrow> (Inl msg, w')
         | Synced \<Rightarrow> sync_entities env target es w')"

text \<open>
  \<^verbatim>\<open>sync_data\<close>. The recursion of the \<^verbatim>\<open>except\<close> branch has no bound in the source, so the
  model takes fuel: \<open>None\<close> is a run that has not returned within that many passes.
\<close>

fun sync_data :: "nat \<Rightarrow> settings \<Rightarrow> environment \<Rightarrow> world \<Rightarrow> ((error + block) \<times> world) option" where
  "sync_data 0 st env w = None"
| "sync_data (Suc fuel) st env w =
     (let config = load_config w;
          (head, w1) = Block_latest env w;
          sync_block = backward env head (snapshotBlockLag config)
      in case sync_entities env (block_number sync_block) entity_order w1 of
           (Inl msg, w2) \<Rightarrow>
             if str_contains ''only indexed up to block number'' msg
             then (case re_search msg of
                     None \<Rightarrow> Some (Inl AttributeError, w2)
                   | Some ds \<Rightarrow>
                       (let last_synced_block = int_of_digits ds;
                            config' = load_config w2;
                            (head', w3) = Block_latest env w2;
                            lag = block_number head' - last_synced_block
                        in sync_data fuel st env
                             (commit_config (upsert (config'\<lparr>snapshotBlockLag := lag\<rparr>) w3))))
             else Some (Inl (SyncError msg), w2)
         | (Inr u, w2) \<Rightarrow>
             Some (Inr sync_block,
                   commit_config
                     (upsert (config\<lparr>lastSyncBlock := block_number sync_block,
                                     snapshotBlockLag :=
                                       max (snapshotBlockLag config - SNAPSHOT_BLOCK_LAG_STEP st)
                                           (SNAPSHOT_BLOCK_LAG st)\<rparr>) w2)))"

text \<open>The target of the pass that \<^verbatim>\<open>sync_data\<close> starts in state \<open>w\<close>: head minus lag.\<close>

definition pass_target :: "environment \<Rightarrow> world \<Rightarrow> int" where
  "pass_target env w = latest_number env (head_reads w) - snapshotBlockLag (config_row w)"

subsection \<open>The exchange reconciler: \<^verbatim>\<open>prepare_hedger_binance_snapshot\<close>\<close>

text \<open>
  \<^verbatim>\<open>select(func.coalesce(func.sum(BinanceIncome.amount), 0)).where(P)\<close>: the sum of the
  amounts of the rows that satisfy \<open>P\<close>, zero when there is none.
\<close>

definition sum_amount :: "(binance_income \<Rightarrow> bool) \<Rightarrow> binance_income list \<Rightarrow> rat" where
  "sum_amount P rows = sum_list (map income_amount (filter P rows))"

text \<open>Lines 40--60: the two transfer sums, scoped by time, type, tenant and hedger.\<close>

definition transfer_sum :: "tenant_context \<Rightarrow> hedger_context \<Rightarrow> block \<Rightarrow> world \<Rightarrow> rat" where
  "transfer_sum ctx h b w =
     sum_amount (\<lambda>r. income_timestamp r \<le> block_datetime b \<and> income_type r = ''TRANSFER''
                     \<and> income_tenant r = context_tenant ctx \<and> income_hedger r = hedger_name h)
       (binance_income_rows w)"

definition internal_transfer_sum :: "tenant_context \<Rightarrow> hedger_context \<Rightarrow> block \<Rightarrow> world \<Rightarrow> rat" where
  "internal_transfer_sum ctx h b w =
     sum_amount (\<lambda>r. income_timestamp r \<le> block_datetime b \<and> income_type r = ''INTERNAL_TRANSFER''
                     \<and> income_tenant r = context_tenant ctx \<and> income_hedger r = hedger_name h)
       (binance_income_rows w)"

text \<open>Lines 62--68: the deposit baseline.\<close>

definition deposit_baseline :: "tenant_context \<Rightarrow> hedger_context \<Rightarrow> block \<Rightarrow> world \<Rightarrow> rat" where
  "deposit_baseline ctx h b w =
     (let total_transfers = transfer_sum ctx h b w + internal_transfer_sum ctx h b w;
          is_negative = total_transfers < 0
      in (if is_negative then - (\<bar>total_transfers\<bar> * 10 ^ 18) else total_transfers * 10 ^ 18)
         + binance_deposit_diff h)"

text \<open>The eight attributes that step 2 sets, on either branch.\<close>

record account_metrics =
  m_maintenance_margin :: rat
  m_total_balance :: rat
  m_account_health_ratio :: rat
  m_cross_upnl :: rat
  m_av_balance :: rat
  m_total_initial_margin :: rat
  m_max_withdraw_amount :: rat
  m_max_open_interest :: rat

text \<open>
  \<^verbatim>\<open>a / b\<close> on \<^verbatim>\<open>Decimal\<close> values: a zero divisor raises \<^verbatim>\<open>DivisionByZero\<close>, or
  \<^verbatim>\<open>InvalidOperation\<close> when the dividend is zero too.
\<close>

definition decimal_div :: "rat \<Rightarrow> rat \<Rightarrow> error + rat" where
  "decimal_div a b =
     (if b = 0 then (if a = 0 then Inl InvalidOperation else Inl DivisionByZero)
      else Inr (a / b))"

text \<open>Lines 71--81: the live branch.\<close>

definition live_metrics :: "hedger_context \<Rightarrow> world \<Rightarrow> (error + account_metrics) \<times> world" where
  "live_metrics h w =
     (let w1 = w\<lparr>trace := trace w @ [FuturesAccount (hedger_name h)]\<rparr>;
          binance_account = futures_account h;
          maintenance_margin = totalMaintMargin binance_account * 10 ^ 18;
          total_balance = totalMarginBalance binance_account * 10 ^ 18
      in case decimal_div maintenance_margin total_balance of
           Inl e \<Rightarrow> (Inl e, w1)
         | Inr q \<Rightarrow>
             (let max_withdraw_amount = maxWithdrawAmount binance_account * 10 ^ 18
              in (Inr \<lparr>m_maintenance_margin = maintenance_margin,
                       m_total_balance = total_balance,
                       m_account_health_ratio = 100 - q * 100,
                       m_cross_upnl = totalCrossUnPnl binance_account * 10 ^ 18,
                       m_av_balance = availableBalance binance_account * 10 ^ 18,
                       m_total_initial_margin = totalInitialMargin binance_account * 10 ^ 18,
                       m_max_withdraw_amount = max_withdraw_amount,
                       m_max_open_interest = hedger_max_open_interest_ratio h * max_withdraw_amount\<rparr>,
                  w1)))"

text \<open>
  Lines 83--91: \<^verbatim>\<open>session.scalar(select(StatsBotMessage).where(...))\<close> gives the first row of
  the result, or \<^verbatim>\<open>None\<close>. The statement has no \<^verbatim>\<open>order_by\<close>: the list
  \<open>stats_bot_messages\<close> holds the rows in the order in which the database returns them.
\<close>

definition in_window :: "tenant_context \<Rightarrow> block \<Rightarrow> stats_bot_message \<Rightarrow> bool" where
  "in_window ctx b m =
     (message_timestamp m \<le> block_datetime b
      \<and> message_timestamp m \<ge> block_datetime b - 180000000
      \<and> message_tenant m = context_tenant ctx)"

definition stat_message :: "tenant_context \<Rightarrow> block \<Rightarrow> world \<Rightarrow> stats_bot_message option" where
  "stat_message ctx b w = find (in_window ctx b) (stats_bot_messages w)"

text \<open>Lines 83--103: the past branch.\<close>

definition past_metrics ::
  "tenant_context \<Rightarrow> hedger_context \<Rightarrow> block \<Rightarrow> world \<Rightarrow> (error + account_metrics) \<times> world" where
  "past_metrics ctx h b w =
     (case stat_message ctx b w of
        None \<Rightarrow> (Inl StatBotMessageNotFound, w)
      | Some m \<Rightarrow>
          (let content = message_content m
           in (Inr \<lparr>m_maintenance_margin = Total_Maint_Margin content,
                    m_total_balance = Total_Margin_Balance content,
                    m_account_health_ratio = Health_Ratio content,
                    m_cross_upnl = Total_Cross_UnPnl content,
                    m_av_balance = Available_Balance content,
                    m_total_initial_margin = Total_Initial_Margin content,
                    m_max_withdraw_amount = Max_Withdraw_Amount content,
                    m_max_open_interest =
                      hedger_max_open_interest_ratio h * Max_Withdraw_Amount content\<rparr>,
               w)))"

text \<open>Lines 112--132: the two funding-fee sums, scoped by time, sign, type and tenant.\<close>

definition paid_funding_fee :: "tenant_context \<Rightarrow> block \<Rightarrow> world \<Rightarrow> rat" where
  "paid_funding_fee ctx b w =
     sum_amount (\<lambda>r. income_timestamp r \<le> block_datetime b \<and> income_amount r < 0
                     \<and> income_type r = ''FUNDING_FEE'' \<and> income_tenant r = context_tenant ctx)
       (binance_income_rows w)"

definition received_funding_fee :: "tenant_context \<Rightarrow> block \<Rightarrow> world \<Rightarrow> rat" where
  "received_funding_fee ctx b w =
     sum_amount (\<lambda>r. income_timestamp r \<le> block_datetime b \<and> income_amount r > 0
                     \<and> income_type r = ''FUNDING_FEE'' \<and> income_tenant r = context_tenant ctx)
       (binance_income_rows w)"

text \<open>Lines 137--146: the loop over the open positions, with its accumulator.\<close>

fun next_funding_fee :: "environment \<Rightarrow> position list \<Rightarrow> rat \<Rightarrow> world \<Rightarrow> rat \<times> world" where
  "next_funding_fee env [] acc w = (acc, w)"
| "next_funding_fee env (pos # ps) acc w =
     (let funding_rate = real_time_funding_rate env (symbol pos);
          funding_rate_fee = - 1 * notional pos * funding_rate
      in next_funding_fee env ps (acc + funding_rate_fee * 10 ^ 18)
           (w\<lparr>trace := trace w @ [RealTimeFundingRate (symbol pos)]\<rparr>))"

text \<open>Lines 134--148: set on live blocks only.\<close>

definition live_next_funding_fee :: "environment \<Rightarrow> hedger_context \<Rightarrow> world \<Rightarrow> rat \<times> world" where
  "live_next_funding_fee env h w =
     (let positions = futures_position_information h;
          open_positions = filter (\<lambda>p. notional p \<noteq> 0) positions
      in next_funding_fee env open_positions 0
           (w\<lparr>trace := trace w @ [FuturesPositionInformation (hedger_name h)]\<rparr>))"

text \<open>\<^verbatim>\<open>BaseModel.save\<close>: \<^verbatim>\<open>session.add(self)\<close> queues the row for insertion.\<close>

definition save :: "hedger_binance_snapshot \<Rightarrow> world \<Rightarrow> world" where
  "save r w = w\<lparr>pending := pending w @ [r]\<rparr>"

definition prepare_hedger_binance_snapshot ::
  "settings \<Rightarrow> environment \<Rightarrow> tenant_context \<Rightarrow> hedger_context \<Rightarrow> block \<Rightarrow> world
     \<Rightarrow> (error + hedger_binance_snapshot) \<times> world" where
  "prepare_hedger_binance_snapshot st env ctx h b w =
     (let deposit = deposit_baseline ctx h b w
      in case (if \<not> is_for_past b then live_metrics h w else past_metrics ctx h b w) of
           (Inl e, w1) \<Rightarrow> (Inl e, w1)
         | (Inr m, w1) \<Rightarrow>
             (let profit = m_total_balance m - deposit;
                  trade_volume = (if IGNORE_BINANCE_TRADE_VOLUME st then 0
                                  else calculate_binance_trade_volume env (hedger_name h) b * 10 ^ 18);
                  paid = paid_funding_fee ctx b w1;
                  received = received_funding_fee ctx b w1;
                  (next_fee, w2) =
                     (if \<not> is_for_past b
                      then (case live_next_funding_fee env h w1 of (f, w') \<Rightarrow> (Some f, w'))
                      else (None, w1));
                  hedger_snapshot =
                    \<lparr>binance_deposit = deposit,
                     binance_maintenance_margin = m_maintenance_margin m,
                     binance_total_balance = m_total_balance m,
                     binance_account_health_ratio = m_account_health_ratio m,
                     binance_cross_upnl = m_cross_upnl m,
                     binance_av_balance = m_av_balance m,
                     binance_total_initial_margin = m_total_initial_margin m,
                     binance_max_withdraw_amount = m_max_withdraw_amount m,
                     max_open_interest = m_max_open_interest m,
                     binance_profit = profit,
                     binance_trade_volume = trade_volume,
                     binance_paid_funding_fee = paid,
                     binance_received_funding_fee = received,
                     binance_next_funding_fee = next_fee,
                     timestamp = block_datetime b,
                     name = hedger_name h,
                     tenant = context_tenant ctx,
                     snapshot_block_number = block_number b\<rparr>
              in (Inr hedger_snapshot, save hedger_snapshot w2)))"

subsection \<open>Writing snapshot rows\<close>

text \<open>
  \<^verbatim>\<open>save\<close> is \<^verbatim>\<open>session.add\<close>: at the flush each queued row is sent as an \<^verbatim>\<open>INSERT\<close>,
  and a row whose primary key is already in the table is refused with an integrity error
  (\<^verbatim>\<open>upsert\<close>, the \<^verbatim>\<open>INSERT ... ON CONFLICT DO UPDATE\<close> of the same class, is used for
  the configuration row only). The key is a parameter \<open>pk\<close>: the class
  \<^verbatim>\<open>HedgerBinanceSnapshot\<close> is not in \<^verbatim>\<open>app/models.py\<close>; the snapshot classes that are
  there declare \<^verbatim>\<open>timestamp = Column(DateTime, primary_key=True)\<close>.
\<close>

fun insert_rows :: "('r \<Rightarrow> 'k) \<Rightarrow> 'r list \<Rightarrow> 'r list \<Rightarrow> error + 'r list" where
  "insert_rows pk [] table = Inr table"
| "insert_rows pk (r # rs) table =
     (if pk r \<in> pk ` set table then Inl IntegrityError
      else insert_rows pk rs (table @ [r]))"

definition flush :: "(hedger_binance_snapshot \<Rightarrow> 'k) \<Rightarrow> world \<Rightarrow> error + world" where
  "flush pk w =
     (case insert_rows pk (pending w) (snapshot_rows w) of
        Inl e \<Rightarrow> Inl e
      | Inr table \<Rightarrow> Inr (w\<lparr>snapshot_rows := table, pending := []\<rparr>))"

text \<open>The key that the data model gives a snapshot: tenant, actor name and timestamp.\<close>

definition snapshot_key :: "hedger_binance_snapshot \<Rightarrow> string \<times> string \<times> int" where
  "snapshot_key r = (tenant r, name r, timestamp r)"

subsection \<open>The snapshot orchestrator: \<^verbatim>\<open>do_fetch_snapshot\<close>\<close>

text \<open>
  The reconcilers and the income refresh that are not among the sources are parameters:
  each takes the state and gives an error or the next state.
\<close>

record collaborators =
  prepare_affiliate_snapshot :: "string \<Rightarrow> hedger_context \<Rightarrow> block \<Rightarrow> world \<Rightarrow> (error + unit) \<times> world"
  prepare_liquidator_snapshot :: "string \<Rightarrow> block \<Rightarrow> world \<Rightarrow> (error + unit) \<times> world"
  prepare_hedger_snapshot :: "hedger_context \<Rightarrow> block \<Rightarrow> world \<Rightarrow> (error + unit) \<times> world"
  fetch_binance_income_histories :: "hedger_context \<Rightarrow> world \<Rightarrow> (error + unit) \<times> world"

text \<open>A \<^verbatim>\<open>for\<close> loop whose body can raise.\<close>

fun for_each :: "('a \<Rightarrow> world \<Rightarrow> (error + unit) \<times> world) \<Rightarrow> 'a list \<Rightarrow> world \<Rightarrow> (error + unit) \<times> world" where
  "for_each body [] w = (Inr (), w)"
| "for_each body (x # xs) w =
     (case body x w of
        (Inl e, w') \<Rightarrow> (Inl e, w')
      | (Inr u, w') \<Rightarrow> for_each body xs w')"

text \<open>A call of a reconciler is logged before it runs.\<close>

definition invoke :: "call \<Rightarrow> (world \<Rightarrow> (error + unit) \<times> world) \<Rightarrow> world \<Rightarrow> (error + unit) \<times> world" where
  "invoke c f w = f (w\<lparr>trace := trace w @ [c]\<rparr>)"

text \<open>Lines 99--104: the body of the loop over the hedgers.\<close>

definition hedger_step ::
  "settings \<Rightarrow> environment \<Rightarrow> collaborators \<Rightarrow> tenant_context \<Rightarrow> block \<Rightarrow> hedger_context \<Rightarrow> world
     \<Rightarrow> (error + unit) \<times> world" where
  "hedger_step st env co ctx snapshot_block h w =
     (case invoke (PrepareHedgerSnapshot (hedger_name h))
             (prepare_hedger_snapshot co h snapshot_block) w of
        (Inl e, w1) \<Rightarrow> (Inl e, w1)
      | (Inr u, w1) \<Rightarrow>
          if \<not> CHAIN_ONLY st \<and> has_binance_keys h
          then (case invoke (FetchBinanceIncomeHistories (hedger_name h))
                       (fetch_binance_income_histories co h) w1 of
                  (Inl e, w2) \<Rightarrow> (Inl e, w2)
                | (Inr u, w2) \<Rightarrow>
                    (case prepare_hedger_binance_snapshot st env ctx h snapshot_block
                            (w2\<lparr>trace := trace w2 @ [PrepareHedgerBinanceSnapshot (hedger_name h)]\<rparr>) of
                       (Inl e, w3) \<Rightarrow> (Inl e, w3)
                     | (Inr r, w3) \<Rightarrow> (Inr (), w3)))
          else (Inr (), w1))"

text \<open>
  \<^verbatim>\<open>do_fetch_snapshot\<close>. Line 84 raises a \<^verbatim>\<open>str\<close>, which Python refuses with a
  \<^verbatim>\<open>TypeError\<close> at that statement: the run ends there, with the error \<open>StaleSnapshot\<close>.
  Lines 79--82 sort the endpoints of the provider and read the chain head once more,
  into a variable that is not used again.
  The \<^verbatim>\<open>session.commit()\<close> of line 108 flushes the queued snapshot rows.
\<close>

definition do_fetch_snapshot ::
  "settings \<Rightarrow> environment \<Rightarrow> collaborators \<Rightarrow> tenant_context \<Rightarrow> block \<Rightarrow> world
     \<Rightarrow> (error + unit) \<times> world" where
  "do_fetch_snapshot st env co ctx snapshot_block w =
     (let config = load_config w;
          stale = (lastSnapshotBlock config \<noteq> 0
                   \<and> lastSnapshotBlock config \<ge> block_number snapshot_block);
          w0 = (if stale then snd (Block_latest env w) else w)
      in if stale then (Inl StaleSnapshot, w0)
         else
           case for_each (\<lambda>a. for_each (\<lambda>h. invoke (PrepareAffiliateSnapshot a (hedger_name h))
                                               (prepare_affiliate_snapshot co a h snapshot_block))
                                  (hedgers ctx))
                  (affiliates ctx) w0 of
             (Inl e, w1) \<Rightarrow> (Inl e, w1)
           | (Inr u, w1) \<Rightarrow>
               (case for_each (\<lambda>l. invoke (PrepareLiquidatorSnapshot l)
                                      (prepare_liquidator_snapshot co l snapshot_block))
                       (liquidators ctx) w1 of
                  (Inl e, w2) \<Rightarrow> (Inl e, w2)
                | (Inr u, w2) \<Rightarrow>
                    (case for_each (hedger_step st env co ctx snapshot_block) (hedgers ctx) w2 of
                       (Inl e, w3) \<Rightarrow> (Inl e, w3)
                     | (Inr u, w3) \<Rightarrow>
                         (let w4 = upsert (config\<lparr>lastSnapshotBlock := block_number snapshot_block\<rparr>) w3
                          in case flush timestamp w4 of
                               Inl e \<Rightarrow> (Inl e, w4)
                             | Inr w5 \<Rightarrow> (Inr (), commit_config w5)))))"

text \<open>\<^verbatim>\<open>fetch_snapshot\<close>: one run of the pipeline.\<close>

definition fetch_snapshot ::
  "nat \<Rightarrow> settings \<Rightarrow> environment \<Rightarrow> collaborators \<Rightarrow> tenant_context \<Rightarrow> world
     \<Rightarrow> ((error + unit) \<times> world) option" where
  "fetch_snapshot fuel st env co ctx w =
     (case sync_data fuel st env w of
        None \<Rightarrow> None
      | Some (Inl e, w1) \<Rightarrow> Some (Inl e, w1)
      | Some (Inr sync_block, w1) \<Rightarrow>
          if get_snapshot ctx then Some (do_fetch_snapshot st env co ctx sync_block w1)
          else Some (Inr (), w1))"

subsection \<open>Example inputs\<close>

definition example_settings :: settings where
  "example_settings = \<lparr>SNAPSHOT_BLOCK_LAG = 10, SNAPSHOT_BLOCK_LAG_STEP = 1, CHAIN_ONLY = False,
     IGNORE_BINANCE_TRADE_VOLUME = False\<rparr>"

definition lag_message :: string where
  "lag_message = ''Failed to decode `block.number` value: `subgraph QmX has only indexed up to block number 1000 and data for block number 1030 is therefore not yet available`''"

definition quiet_environment :: environment where
  "quiet_environment = \<lparr>latest_number = (\<lambda>k. 1050), datetime_of = (\<lambda>n. n * 1000000),
     past_of = (\<lambda>n. False), subgraph_sync = (\<lambda>k. Synced),
     real_time_funding_rate = (\<lambda>s. 0), calculate_binance_trade_volume = (\<lambda>h b. 0)\<rparr>"

definition lagging_environment :: environment where
  "lagging_environment =
     quiet_environment\<lparr>subgraph_sync := (\<lambda>k. if k = 0 then Raised lag_message else Synced)\<rparr>"

definition example_config :: runtime_configuration where
  "example_config = \<lparr>lastSyncBlock = 0, lastSnapshotBlock = 0, snapshotBlockLag = 20\<rparr>"

definition example_world :: world where
  "example_world = \<lparr>config_row = example_config, committed_config = example_config,
     binance_income_rows = [], stats_bot_messages = [], snapshot_rows = [], pending = [],
     head_reads = 0, sync_calls = 0, sync_log = [], trace = []\<rparr>"

definition other_message :: string where
  "other_message = ''connection reset by peer''"

definition failing_environment :: environment where
  "failing_environment =
     quiet_environment\<lparr>subgraph_sync :=
       (\<lambda>k. if k = 0 then Raised lag_message else if k = 1 then Raised other_message else Synced)\<rparr>"

definition example_account :: binance_account where
  "example_account = \<lparr>totalMaintMargin = 10, totalMarginBalance = 200, totalCrossUnPnl = 1,
     availableBalance = 150, totalInitialMargin = 20, maxWithdrawAmount = 100\<rparr>"

definition example_hedger :: hedger_context where
  "example_hedger = \<lparr>hedger_name = ''hedger1'', binance_deposit_diff = 5,
     hedger_max_open_interest_ratio = 2, has_binance_keys = True,
     futures_account = example_account,
     futures_position_information =
       [\<lparr>notional = 1000, symbol = ''BTCUSDT'', positionSide = ''BOTH''\<rparr>,
        \<lparr>notional = 0, symbol = ''ETHUSDT'', positionSide = ''BOTH''\<rparr>]\<rparr>"

definition example_context :: tenant_context where
  "example_context = \<lparr>context_tenant = ''tenant1'', affiliates = [], hedgers = [example_hedger],
     liquidators = [''liquidator1''], get_snapshot = True\<rparr>"

definition live_block :: block where
  "live_block = \<lparr>block_number = 1030, block_datetime = 1030000000, is_for_past = False\<rparr>"

definition past_block :: block where
  "past_block = \<lparr>block_number = 1030, block_datetime = 1030000000, is_for_past = True\<rparr>"

definition transfer_rows :: "binance_income list" where
  "transfer_rows =
     [\<lparr>income_type = ''TRANSFER'', income_amount = - 150, income_timestamp = 1000000000,
       income_tenant = ''tenant1'', income_hedger = ''hedger1''\<rparr>,
      \<lparr>income_type = ''INTERNAL_TRANSFER'', income_amount = 30, income_timestamp = 1030000000,
       income_tenant = ''tenant1'', income_hedger = ''hedger1''\<rparr>,
      \<lparr>income_type = ''TRANSFER'', income_amount = 70, income_timestamp = 1030000001,
       income_tenant = ''tenant1'', income_hedger = ''hedger1''\<rparr>,
      \<lparr>income_type = ''TRANSFER'', income_amount = 11, income_timestamp = 1000000000,
       income_tenant = ''tenant1'', income_hedger = ''hedger2''\<rparr>]"

definition transfer_world :: world where
  "transfer_world = example_world\<lparr>binance_income_rows := transfer_rows\<rparr>"

definition funding_environment :: environment where
  "funding_environment = quiet_environment\<lparr>real_time_funding_rate := (\<lambda>s. 1 / 10000)\<rparr>"

definition live_snapshot :: hedger_binance_snapshot where
  "live_snapshot =
     \<lparr>binance_deposit = - 119999999999999999995,
      binance_maintenance_margin = 10000000000000000000,
      binance_total_balance = 200000000000000000000,
      binance_account_health_ratio = 95,
      binance_cross_upnl = 1000000000000000000,
      binance_av_balance = 150000000000000000000,
      binance_total_initial_margin = 20000000000000000000,
      binance_max_withdraw_amount = 100000000000000000000,
      max_open_interest = 200000000000000000000,
      binance_profit = 319999999999999999995,
      binance_trade_volume = 0,
      binance_paid_funding_fee = 0,
      binance_received_funding_fee = 0,
      binance_next_funding_fee = Some (- 100000000000000000),
      timestamp = 1030000000, name = ''hedger1'', tenant = ''tenant1'',
      snapshot_block_number = 1030\<rparr>"

definition live_trace :: "call list" where
  "live_trace = [FuturesAccount ''hedger1'', FuturesPositionInformation ''hedger1'',
                 RealTimeFundingRate ''BTCUSDT'']"

definition empty_account_hedger :: hedger_context where
  "empty_account_hedger =
     example_hedger\<lparr>futures_account := example_account\<lparr>totalMaintMargin := 0, totalMarginBalance := 0\<rparr>\<rparr>"

definition liquidated_account_hedger :: hedger_context where
  "liquidated_account_hedger =
     example_hedger\<lparr>futures_account := example_account\<lparr>totalMarginBalance := 0\<rparr>\<rparr>"

definition funding_rows :: "binance_income list" where
  "funding_rows =
     [\<lparr>income_type = ''FUNDING_FEE'', income_amount = - 3, income_timestamp = 1000000000,
       income_tenant = ''tenant1'', income_hedger = ''hedger1''\<rparr>,
      \<lparr>income_type = ''FUNDING_FEE'', income_amount = - 4, income_timestamp = 1000000000,
       income_tenant = ''tenant1'', income_hedger = ''hedger2''\<rparr>,
      \<lparr>income_type = ''FUNDING_FEE'', income_amount = 2, income_timestamp = 1000000000,
       income_tenant = ''tenant1'', income_hedger = ''hedger1''\<rparr>,
      \<lparr>income_type = ''FUNDING_FEE'', income_amount = 6, income_timestamp = 1000000000,
       income_tenant = ''tenant1'', income_hedger = ''hedger2''\<rparr>]"

definition funding_world :: world where
  "funding_world = example_world\<lparr>binance_income_rows := funding_rows\<rparr>"

definition content_of_balance :: "rat \<Rightarrow> stats_content" where
  "content_of_balance x =
     \<lparr>Total_Maint_Margin = 10, Total_Margin_Balance = x, Health_Ratio = 95,
      Total_Cross_UnPnl = 1, Available_Balance = 150, Total_Initial_Margin = 20,
      Max_Withdraw_Amount = 100\<rparr>"

definition older_message :: stats_bot_message where
  "older_message = \<lparr>message_timestamp = 910000000, message_content = content_of_balance 200,
     message_tenant = ''tenant1''\<rparr>"

definition newer_message :: stats_bot_message where
  "newer_message = \<lparr>message_timestamp = 970000000, message_content = content_of_balance 300,
     message_tenant = ''tenant1''\<rparr>"

definition stale_message :: stats_bot_message where
  "stale_message = \<lparr>message_timestamp = 849999999, message_content = content_of_balance 100,
     message_tenant = ''tenant1''\<rparr>"

definition foreign_message :: stats_bot_message where
  "foreign_message = \<lparr>message_timestamp = 1000000000, message_content = content_of_balance 400,
     message_tenant = ''tenant2''\<rparr>"

definition message_world :: world where
  "message_world =
     example_world\<lparr>stats_bot_messages := [stale_message, foreign_message, older_message, newer_message]\<rparr>"

definition snapshot_world :: world where
  "snapshot_world = transfer_world\<lparr>snapshot_rows := [live_snapshot]\<rparr>"

definition past_snapshot :: hedger_binance_snapshot where
  "past_snapshot =
     \<lparr>binance_deposit = 5,
      binance_maintenance_margin = 10,
      binance_total_balance = 200,
      binance_account_health_ratio = 95,
      binance_cross_upnl = 1,
      binance_av_balance = 150,
      binance_total_initial_margin = 20,
      binance_max_withdraw_amount = 100,
      max_open_interest = 200,
      binance_profit = 195,
      binance_trade_volume = 0,
      binance_paid_funding_fee = 0,
      binance_received_funding_fee = 0,
      binance_next_funding_fee = None,
      timestamp = 1030000000, name = ''hedger1'', tenant = ''tenant1'',
      snapshot_block_number = 1030\<rparr>"

definition funding_snapshot :: hedger_binance_snapshot where
  "funding_snapshot =
     live_snapshot\<lparr>binance_deposit := 5, binance_profit := 199999999999999999995,
       binance_paid_funding_fee := - 7, binance_received_funding_fee := 8\<rparr>"

definition rerun_snapshot :: hedger_binance_snapshot where
  "rerun_snapshot = live_snapshot\<lparr>binance_next_funding_fee := Some 0\<rparr>"

definition later_snapshot :: hedger_binance_snapshot where
  "later_snapshot = live_snapshot\<lparr>timestamp := 1040000000, snapshot_block_number := 1040\<rparr>"

definition idle_collaborators :: collaborators where
  "idle_collaborators =
     \<lparr>prepare_affiliate_snapshot = (\<lambda>a h b w. (Inr (), w)),
      prepare_liquidator_snapshot = (\<lambda>l b w. (Inr (), w)),
      prepare_hedger_snapshot = (\<lambda>h b w. (Inr (), w)),
      fetch_binance_income_histories = (\<lambda>h w. (Inr (), w))\<rparr>"

definition sync_only_context :: tenant_context where
  "sync_only_context = example_context\<lparr>get_snapshot := False\<rparr>"

definition liquidator_context :: tenant_context where
  "liquidator_context = example_context\<lparr>hedgers := []\<rparr>"

definition regressing_environment :: environment where
  "regressing_environment =
     quiet_environment\<lparr>subgraph_sync := (\<lambda>k. if k = 7 then Raised lag_message else Synced)\<rparr>"

definition low_lag_world :: world where
  "low_lag_world = example_world\<lparr>config_row := example_config\<lparr>snapshotBlockLag := 5\<rparr>,
     committed_config := example_config\<lparr>snapshotBlockLag := 5\<rparr>\<rparr>"

definition genesis_block :: block where
  "genesis_block = \<lparr>block_number = 0, block_datetime = 0, is_for_past = True\<rparr>"

definition stale_world :: world where
  "stale_world = example_world\<lparr>config_row := example_config\<lparr>lastSnapshotBlock := 500\<rparr>,
     committed_config := example_config\<lparr>lastSnapshotBlock := 500\<rparr>\<rparr>"

definition block_500 :: block where
  "block_500 = \<lparr>block_number = 500, block_datetime = 500000000, is_for_past = True\<rparr>"

definition first_run_world :: world where
  "first_run_world =
     example_world\<lparr>head_reads := 1, sync_calls := 7,
       sync_log := [(User, 1030), (Symbol, 1030), (Account, 1030), (BalanceChange, 1030),
                    (Quote, 1030), (TradeHistory, 1030), (DailyHistory, 1030)],
       config_row := example_config\<lparr>lastSyncBlock := 1030, snapshotBlockLag := 19\<rparr>,
       committed_config := example_config\<lparr>lastSyncBlock := 1030, snapshotBlockLag := 19\<rparr>\<rparr>"

definition second_run_world :: world where
  "second_run_world =
     first_run_world\<lparr>head_reads := 4, sync_calls := 15,
       sync_log := sync_log first_run_world @
                   [(User, 1031), (User, 1000), (Symbol, 1000), (Account, 1000),
                    (BalanceChange, 1000), (Quote, 1000), (TradeHistory, 1000),
                    (DailyHistory, 1000)],
       config_row := example_config\<lparr>lastSyncBlock := 1000, snapshotBlockLag := 49\<rparr>,
       committed_config := example_config\<lparr>lastSyncBlock := 1000, snapshotBlockLag := 49\<rparr>\<rparr>"

definition raised_lag_world :: world where
  "raised_lag_world =
     low_lag_world\<lparr>head_reads := 1, sync_calls := 7,
       sync_log := [(User, 1045), (Symbol, 1045), (Account, 1045), (BalanceChange, 1045),
                    (Quote, 1045), (TradeHistory, 1045), (DailyHistory, 1045)],
       config_row := example_config\<lparr>lastSyncBlock := 1045, snapshotBlockLag := 10\<rparr>,
       committed_config := example_config\<lparr>lastSyncBlock := 1045, snapshotBlockLag := 10\<rparr>\<rparr>"

definition young_chain_environment :: environment where
  "young_chain_environment = quiet_environment\<lparr>latest_number := (\<lambda>k. 10)\<rparr>"

definition negative_run_world :: world where
  "negative_run_world =
     example_world\<lparr>head_reads := 1, sync_calls := 7,
       sync_log := [(User, - 10), (Symbol, - 10), (Account, - 10), (BalanceChange, - 10),
                    (Quote, - 10), (TradeHistory, - 10), (DailyHistory, - 10)],
       trace := [PrepareLiquidatorSnapshot ''liquidator1''],
       config_row := \<lparr>lastSyncBlock = - 10, lastSnapshotBlock = - 10, snapshotBlockLag = 19\<rparr>,
       committed_config := \<lparr>lastSyncBlock = - 10, lastSnapshotBlock = - 10, snapshotBlockLag = 19\<rparr>\<rparr>"

definition snapshot_run_world :: world where
  "snapshot_run_world =
     example_world\<lparr>head_reads := 1, sync_calls := 7,
       sync_log := [(User, 1030), (Symbol, 1030), (Account, 1030), (BalanceChange, 1030),
                    (Quote, 1030), (TradeHistory, 1030), (DailyHistory, 1030)],
       trace := [PrepareLiquidatorSnapshot ''liquidator1''],
       config_row := \<lparr>lastSyncBlock = 1030, lastSnapshotBlock = 1030, snapshotBlockLag = 19\<rparr>,
       committed_config := \<lparr>lastSyncBlock = 1030, lastSnapshotBlock = 1030, snapshotBlockLag = 19\<rparr>\<rparr>"

definition recovered_run_world :: world where
  "recovered_run_world =
     example_world\<lparr>head_reads := 3, sync_calls := 8,
       sync_log := [(User, 1030), (User, 1000), (Symbol, 1000), (Account, 1000),
                    (BalanceChange, 1000), (Quote, 1000), (TradeHistory, 1000),
                    (DailyHistory, 1000)],
       trace := [PrepareLiquidatorSnapshot ''liquidator1''],
       config_row := \<lparr>lastSyncBlock = 1000, lastSnapshotBlock = 1000, snapshotBlockLag = 49\<rparr>,
       committed_config := \<lparr>lastSyncBlock = 1000, lastSnapshotBlock = 1000, snapshotBlockLag = 49\<rparr>\<rparr>"

section \<open>Properties\<close>

subsection \<open>The block resolver\<close>

lemma sync_entities_all_synced:
  "(\<And>k. k < length es \<Longrightarrow> subgraph_sync env (sync_calls w + k) = Synced) \<Longrightarrow>
   sync_entities env t es w =
     (Inr (), w\<lparr>sync_calls := sync_calls w + length es,
               sync_log := sync_log w @ map (\<lambda>e. (e, t)) es\<rparr>)"
proof (induction es arbitrary: w)
  case Nil
  then show ?case by simp
next
  case (Cons e es)
  let ?w' = "w\<lparr>sync_calls := Suc (sync_calls w), sync_log := sync_log w @ [(e, t)]\<rparr>"
  have here: "subgraph_sync env (sync_calls w) = Synced"
    using Cons.prems [of 0] by simp
  have rest: "\<And>k. k < length es \<Longrightarrow> subgraph_sync env (sync_calls ?w' + k) = Synced"
    using Cons.prems [of "Suc _"] by simp
  show ?case
    using Cons.IH [of ?w', OF rest] here by (simp add: Let_def)
qed

lemma sync_entities_raised:
  "j < length es \<Longrightarrow>
   (\<And>k. k < j \<Longrightarrow> subgraph_sync env (sync_calls w + k) = Synced) \<Longrightarrow>
   subgraph_sync env (sync_calls w + j) = Raised msg \<Longrightarrow>
   sync_entities env t es w =
     (Inl msg, w\<lparr>sync_calls := sync_calls w + Suc j,
                sync_log := sync_log w @ map (\<lambda>e. (e, t)) (take (Suc j) es)\<rparr>)"
proof (induction es arbitrary: w j)
  case Nil
  then show ?case by simp
next
  case (Cons e es)
  let ?w' = "w\<lparr>sync_calls := Suc (sync_calls w), sync_log := sync_log w @ [(e, t)]\<rparr>"
  show ?case
  proof (cases j)
    case 0
    then show ?thesis using Cons.prems(3) by (simp add: Let_def)
  next
    case (Suc i)
    have here: "subgraph_sync env (sync_calls w) = Synced"
      using Cons.prems(2) [of 0] Suc by simp
    have before: "\<And>k. k < i \<Longrightarrow> subgraph_sync env (sync_calls ?w' + k) = Synced"
      using Cons.prems(2) [of "Suc _"] Suc by simp
    have at: "subgraph_sync env (sync_calls ?w' + i) = Raised msg"
      using Cons.prems(3) Suc by simp
    have len: "i < length es" using Cons.prems(1) Suc by simp
    show ?thesis
      using Cons.IH [of i ?w', OF len before at] here Suc by (simp add: Let_def)
  qed
qed


lemma sync_data_lag_step:
  assumes j: "j < 7"
    and before: "\<forall>k<j. subgraph_sync env (sync_calls w + k) = Synced"
    and raised: "subgraph_sync env (sync_calls w + j) = Raised msg"
    and only: "str_contains ''only indexed up to block number'' msg"
    and parsed: "re_search msg = Some ds"
  shows "sync_data (Suc fuel) st env w =
           sync_data fuel st env
             (w\<lparr>sync_calls := sync_calls w + Suc j,
                sync_log := sync_log w @ map (\<lambda>e. (e, pass_target env w)) (take (Suc j) entity_order),
                head_reads := head_reads w + 2,
                config_row := (config_row w)\<lparr>snapshotBlockLag :=
                    latest_number env (Suc (head_reads w)) - int_of_digits ds\<rparr>,
                committed_config := (config_row w)\<lparr>snapshotBlockLag :=
                    latest_number env (Suc (head_reads w)) - int_of_digits ds\<rparr>\<rparr>)"
proof -
  let ?w1 = "w\<lparr>head_reads := Suc (head_reads w)\<rparr>"
  have len: "length entity_order = 7" by (simp add: entity_order_def)
  have a: "j < length entity_order" using j len by simp
  have b: "\<And>k. k < j \<Longrightarrow> subgraph_sync env (sync_calls ?w1 + k) = Synced"
    using before by simp
  have c: "subgraph_sync env (sync_calls ?w1 + j) = Raised msg"
    using raised by simp
  from sync_entities_raised [of j entity_order env ?w1 msg "pass_target env w", OF a b c]
  have pass: "sync_entities env (pass_target env w) entity_order ?w1 =
                (Inl msg, ?w1\<lparr>sync_calls := sync_calls w + Suc j,
                   sync_log := sync_log w @ map (\<lambda>e. (e, pass_target env w)) (take (Suc j) entity_order)\<rparr>)"
    by simp
  show ?thesis
    using pass only parsed
    by (simp add: Let_def Block_latest_def backward_def get_block_def load_config_def
          upsert_def commit_config_def pass_target_def)
qed

lemma sync_data_other_error:
  assumes i: "i < 7"
    and before: "\<forall>k<i. subgraph_sync env (sync_calls w + k) = Synced"
    and raised: "subgraph_sync env (sync_calls w + i) = Raised msg"
    and other: "\<not> str_contains ''only indexed up to block number'' msg"
  shows "sync_data (Suc fuel) st env w =
           Some (Inl (SyncError msg),
                 w\<lparr>head_reads := Suc (head_reads w),
                   sync_calls := sync_calls w + Suc i,
                   sync_log := sync_log w @ map (\<lambda>e. (e, pass_target env w)) (take (Suc i) entity_order)\<rparr>)"
proof -
  let ?w1 = "w\<lparr>head_reads := Suc (head_reads w)\<rparr>"
  have len: "length entity_order = 7" by (simp add: entity_order_def)
  have a: "i < length entity_order" using i len by simp
  have b: "\<And>k. k < i \<Longrightarrow> subgraph_sync env (sync_calls ?w1 + k) = Synced"
    using before by simp
  have c: "subgraph_sync env (sync_calls ?w1 + i) = Raised msg"
    using raised by simp
  from sync_entities_raised [of i entity_order env ?w1 msg "pass_target env w", OF a b c]
  have pass: "sync_entities env (pass_target env w) entity_order ?w1 =
                (Inl msg, ?w1\<lparr>sync_calls := sync_calls w + Suc i,
                   sync_log := sync_log w @ map (\<lambda>e. (e, pass_target env w)) (take (Suc i) entity_order)\<rparr>)"
    by simp
  show ?thesis
    using pass other
    by (simp add: Let_def Block_latest_def backward_def get_block_def load_config_def
          pass_target_def)
qed

lemma sync_data_pass_succeeds:
  assumes ok: "\<forall>k<7. subgraph_sync env (sync_calls w + k) = Synced"
  shows "sync_data (Suc fuel) st env w =
           Some (Inr (get_block env (pass_target env w)),
                 w\<lparr>head_reads := Suc (head_reads w),
                   sync_calls := sync_calls w + 7,
                   sync_log := sync_log w @ map (\<lambda>e. (e, pass_target env w)) entity_order,
                   config_row := (config_row w)\<lparr>lastSyncBlock := pass_target env w,
                       snapshotBlockLag :=
                         max (snapshotBlockLag (config_row w) - SNAPSHOT_BLOCK_LAG_STEP st)
                             (SNAPSHOT_BLOCK_LAG st)\<rparr>,
                   committed_config := (config_row w)\<lparr>lastSyncBlock := pass_target env w,
                       snapshotBlockLag :=
                         max (snapshotBlockLag (config_row w) - SNAPSHOT_BLOCK_LAG_STEP st)
                             (SNAPSHOT_BLOCK_LAG st)\<rparr>\<rparr>)"
proof -
  let ?w1 = "w\<lparr>head_reads := Suc (head_reads w)\<rparr>"
  have len: "length entity_order = 7" by (simp add: entity_order_def)
  have "\<And>k. k < length entity_order \<Longrightarrow> subgraph_sync env (sync_calls ?w1 + k) = Synced"
    using ok len by simp
  from sync_entities_all_synced [of entity_order env ?w1 "pass_target env w", OF this]
  have pass: "sync_entities env (pass_target env w) entity_order ?w1 =
                (Inr (), ?w1\<lparr>sync_calls := sync_calls w + 7,
                   sync_log := sync_log w @ map (\<lambda>e. (e, pass_target env w)) entity_order\<rparr>)"
    using len by simp
  show ?thesis
    using pass
    by (simp add: Let_def Block_latest_def backward_def get_block_def load_config_def
          upsert_def commit_config_def pass_target_def)
qed

text \<open>
  Claim C1. A call of the synchronizer, any of the seven (\<open>j\<close> calls succeeded before
  it), raises an exception whose message contains \<^verbatim>\<open>only indexed up to block number\<close>,
  and \<open>N\<close> is the number the regular expression reads from it. Then \<^verbatim>\<open>sync_data\<close>
  reads the chain head again, sets \<open>snapshotBlockLag\<close> to that head minus \<open>N\<close>, commits
  the row, and calls itself in that state \<open>w'\<close>, whose pass has the target next head minus
  the new lag. What the run then does shows the restart:
  \<^item> when the next seven calls succeed, the run returns the block at the new target; the
    log holds, after the calls of the pass that failed, the seven entities in order at the
    new target, and the row is committed with \<open>lastSyncBlock\<close> at the new target and the
    new lag less one step (not below the floor);
  \<^item> when a call of the second pass raises any other exception, the run ends with that
    exception, and the row it leaves, committed, has \<open>snapshotBlockLag\<close> equal to head
    minus \<open>N\<close>.
\<close>

theorem sync_data_indexer_lag_restart:
  assumes j: "j < 7"
    and before: "\<forall>k<j. subgraph_sync env (sync_calls w + k) = Synced"
    and raised: "subgraph_sync env (sync_calls w + j) = Raised msg"
    and only: "str_contains ''only indexed up to block number'' msg"
    and parsed: "re_search msg = Some ds"
  shows "let lag = latest_number env (Suc (head_reads w)) - int_of_digits ds;
             target = latest_number env (head_reads w + 2) - lag;
             w' = w\<lparr>sync_calls := sync_calls w + Suc j,
                    sync_log := sync_log w @ map (\<lambda>e. (e, pass_target env w)) (take (Suc j) entity_order),
                    head_reads := head_reads w + 2,
                    config_row := (config_row w)\<lparr>snapshotBlockLag := lag\<rparr>,
                    committed_config := (config_row w)\<lparr>snapshotBlockLag := lag\<rparr>\<rparr>
         in sync_data (Suc fuel) st env w = sync_data fuel st env w'
            \<and> snapshotBlockLag (committed_config w') = lag
            \<and> pass_target env w' = target
            \<and> ((\<forall>k<7. subgraph_sync env (sync_calls w + Suc j + k) = Synced) \<longrightarrow>
                 sync_data (Suc (Suc fuel)) st env w =
                   Some (Inr (get_block env target),
                         w\<lparr>sync_calls := sync_calls w + Suc j + 7,
                           sync_log := sync_log w
                             @ map (\<lambda>e. (e, pass_target env w)) (take (Suc j) entity_order)
                             @ map (\<lambda>e. (e, target)) entity_order,
                           head_reads := head_reads w + 3,
                           config_row := (config_row w)\<lparr>lastSyncBlock := target,
                             snapshotBlockLag :=
                               max (lag - SNAPSHOT_BLOCK_LAG_STEP st) (SNAPSHOT_BLOCK_LAG st)\<rparr>,
                           committed_config := (config_row w)\<lparr>lastSyncBlock := target,
                             snapshotBlockLag :=
                               max (lag - SNAPSHOT_BLOCK_LAG_STEP st) (SNAPSHOT_BLOCK_LAG st)\<rparr>\<rparr>))
            \<and> (\<forall>i msg'. i < 7
                   \<and> (\<forall>k<i. subgraph_sync env (sync_calls w + Suc j + k) = Synced)
                   \<and> subgraph_sync env (sync_calls w + Suc j + i) = Raised msg'
                   \<and> \<not> str_contains ''only indexed up to block number'' msg' \<longrightarrow>
                 sync_data (Suc (Suc fuel)) st env w =
                   Some (Inl (SyncError msg'),
                         w\<lparr>sync_calls := sync_calls w + Suc j + Suc i,
                           sync_log := sync_log w
                             @ map (\<lambda>e. (e, pass_target env w)) (take (Suc j) entity_order)
                             @ map (\<lambda>e. (e, target)) (take (Suc i) entity_order),
                           head_reads := head_reads w + 3,
                           config_row := (config_row w)\<lparr>snapshotBlockLag := lag\<rparr>,
                           committed_config := (config_row w)\<lparr>snapshotBlockLag := lag\<rparr>\<rparr>))"
proof -
  define lag where "lag = latest_number env (Suc (head_reads w)) - int_of_digits ds"
  define target where "target = latest_number env (head_reads w + 2) - lag"
  define w' where "w' = w\<lparr>sync_calls := sync_calls w + Suc j,
                    sync_log := sync_log w @ map (\<lambda>e. (e, pass_target env w)) (take (Suc j) entity_order),
                    head_reads := head_reads w + 2,
                    config_row := (config_row w)\<lparr>snapshotBlockLag := lag\<rparr>,
                    committed_config := (config_row w)\<lparr>snapshotBlockLag := lag\<rparr>\<rparr>"
  have step: "\<And>n. sync_data (Suc n) st env w = sync_data n st env w'"
    using sync_data_lag_step [OF j before raised only parsed] by (simp add: w'_def lag_def)
  have committed: "snapshotBlockLag (committed_config w') = lag"
    by (simp add: w'_def)
  have tgt: "pass_target env w' = target"
    by (simp add: w'_def pass_target_def target_def)
  have again: "sync_data (Suc (Suc fuel)) st env w =
                   Some (Inr (get_block env target),
                         w\<lparr>sync_calls := sync_calls w + Suc j + 7,
                           sync_log := sync_log w
                             @ map (\<lambda>e. (e, pass_target env w)) (take (Suc j) entity_order)
                             @ map (\<lambda>e. (e, target)) entity_order,
                           head_reads := head_reads w + 3,
                           config_row := (config_row w)\<lparr>lastSyncBlock := target,
                             snapshotBlockLag :=
                               max (lag - SNAPSHOT_BLOCK_LAG_STEP st) (SNAPSHOT_BLOCK_LAG st)\<rparr>,
                           committed_config := (config_row w)\<lparr>lastSyncBlock := target,
                             snapshotBlockLag :=
                               max (lag - SNAPSHOT_BLOCK_LAG_STEP st) (SNAPSHOT_BLOCK_LAG st)\<rparr>\<rparr>)"
    if ok: "\<forall>k<7. subgraph_sync env (sync_calls w + Suc j + k) = Synced"
  proof -
    have ok': "\<forall>k<7. subgraph_sync env (sync_calls w' + k) = Synced"
      using ok by (simp add: w'_def)
    show ?thesis
      unfolding step sync_data_pass_succeeds [OF ok', of fuel st] tgt
      by (simp add: w'_def)
  qed
  have fails: "sync_data (Suc (Suc fuel)) st env w =
                   Some (Inl (SyncError msg'),
                         w\<lparr>sync_calls := sync_calls w + Suc j + Suc i,
                           sync_log := sync_log w
                             @ map (\<lambda>e. (e, pass_target env w)) (take (Suc j) entity_order)
                             @ map (\<lambda>e. (e, target)) (take (Suc i) entity_order),
                           head_reads := head_reads w + 3,
                           config_row := (config_row w)\<lparr>snapshotBlockLag := lag\<rparr>,
                           committed_config := (config_row w)\<lparr>snapshotBlockLag := lag\<rparr>\<rparr>)"
    if i: "i < 7"
      and bi: "\<forall>k<i. subgraph_sync env (sync_calls w + Suc j + k) = Synced"
      and ri: "subgraph_sync env (sync_calls w + Suc j + i) = Raised msg'"
      and other: "\<not> str_contains ''only indexed up to block number'' msg'"
    for i msg'
  proof -
    have bi': "\<forall>k<i. subgraph_sync env (sync_calls w' + k) = Synced"
      using bi by (simp add: w'_def)
    have ri': "subgraph_sync env (sync_calls w' + i) = Raised msg'"
      using ri by (simp add: w'_def)
    show ?thesis
      unfolding step sync_data_other_error [OF i bi' ri' other, of fuel st] tgt
      by (simp add: w'_def)
  qed
  show ?thesis
    unfolding Let_def lag_def [symmetric] target_def [symmetric] w'_def [symmetric]
    using step committed tgt again fails by blast
qed

lemma lag_message_only: "str_contains ''only indexed up to block number'' lag_message"
  by code_simp

lemma lag_message_parsed: "re_search lag_message = Some ''1000''"
  by code_simp

lemma other_message_not_lag: "\<not> str_contains ''only indexed up to block number'' other_message"
  by code_simp

lemma int_of_1000: "int_of_digits ''1000'' = 1000"
  by code_simp

text \<open>
  The scenario of the specification: chain head 1050, lag 20, and the first call raises
  with ``only indexed up to block number 1000''. With the next seven calls succeeding the
  run returns block \<open>1000 = 1050 - 50\<close> after going through the seven entities at that
  target. With a second call that fails for another reason the run ends with the lag 50
  committed.
\<close>

theorem sync_data_indexer_lag_restart_scenario:
  "sync_data (Suc (Suc 0)) example_settings lagging_environment example_world =
     Some (Inr \<lparr>block_number = 1000, block_datetime = 1000000000, is_for_past = False\<rparr>,
           example_world\<lparr>sync_calls := 8,
             sync_log := [(User, 1030), (User, 1000), (Symbol, 1000), (Account, 1000),
                          (BalanceChange, 1000), (Quote, 1000), (TradeHistory, 1000),
                          (DailyHistory, 1000)],
             head_reads := 3,
             config_row := example_config\<lparr>lastSyncBlock := 1000, snapshotBlockLag := 49\<rparr>,
             committed_config := example_config\<lparr>lastSyncBlock := 1000, snapshotBlockLag := 49\<rparr>\<rparr>)
   \<and> sync_data (Suc (Suc 0)) example_settings failing_environment example_world =
       Some (Inl (SyncError other_message),
             example_world\<lparr>sync_calls := 2, sync_log := [(User, 1030), (User, 1000)],
               head_reads := 3,
               config_row := example_config\<lparr>snapshotBlockLag := 50\<rparr>,
               committed_config := example_config\<lparr>snapshotBlockLag := 50\<rparr>\<rparr>)"
proof -
  have j: "(0::nat) < 7" by simp
  have start: "sync_calls example_world = 0" "head_reads example_world = 0"
    "sync_log example_world = []" "config_row example_world = example_config"
    "snapshotBlockLag example_config = 20"
    "SNAPSHOT_BLOCK_LAG example_settings = 10" "SNAPSHOT_BLOCK_LAG_STEP example_settings = 1"
    by (simp_all add: example_world_def example_config_def example_settings_def)
  have env: "\<And>k. latest_number lagging_environment k = 1050"
    "\<And>n. datetime_of lagging_environment n = n * 1000000"
    "\<And>n. past_of lagging_environment n = False"
    "\<And>k. latest_number failing_environment k = 1050"
    by (simp_all add: lagging_environment_def failing_environment_def quiet_environment_def)
  have before: "\<forall>k<0::nat. subgraph_sync lagging_environment (sync_calls example_world + k) = Synced"
    "\<forall>k<0::nat. subgraph_sync failing_environment (sync_calls example_world + k) = Synced"
    by simp_all
  have raised: "subgraph_sync lagging_environment (sync_calls example_world + 0) = Raised lag_message"
    "subgraph_sync failing_environment (sync_calls example_world + 0) = Raised lag_message"
    by (simp_all add: lagging_environment_def failing_environment_def quiet_environment_def start)
  have after: "\<forall>k<7. subgraph_sync lagging_environment (sync_calls example_world + Suc 0 + k) = Synced"
    by (simp add: lagging_environment_def quiet_environment_def start)
  have second: "(0::nat) < 7
      \<and> (\<forall>k<0::nat. subgraph_sync failing_environment (sync_calls example_world + Suc 0 + k) = Synced)
      \<and> subgraph_sync failing_environment (sync_calls example_world + Suc 0 + 0) = Raised other_message
      \<and> \<not> str_contains ''only indexed up to block number'' other_message"
    using other_message_not_lag
    by (simp add: failing_environment_def quiet_environment_def start)
  note returns = sync_data_indexer_lag_restart [OF j before(1) raised(1) lag_message_only
      lag_message_parsed, where fuel = 0 and st = example_settings, unfolded Let_def]
  note stops = sync_data_indexer_lag_restart [OF j before(2) raised(2) lag_message_only
      lag_message_parsed, where fuel = 0 and st = example_settings, unfolded Let_def]
  from returns after
  have a: "sync_data (Suc (Suc 0)) example_settings lagging_environment example_world =
     Some (Inr \<lparr>block_number = 1000, block_datetime = 1000000000, is_for_past = False\<rparr>,
           example_world\<lparr>sync_calls := 8,
             sync_log := [(User, 1030), (User, 1000), (Symbol, 1000), (Account, 1000),
                          (BalanceChange, 1000), (Quote, 1000), (TradeHistory, 1000),
                          (DailyHistory, 1000)],
             head_reads := 3,
             config_row := example_config\<lparr>lastSyncBlock := 1000, snapshotBlockLag := 49\<rparr>,
             committed_config := example_config\<lparr>lastSyncBlock := 1000, snapshotBlockLag := 49\<rparr>\<rparr>)"
    by (simp del: sync_data.simps
          add: int_of_1000 pass_target_def entity_order_def get_block_def env start)
  from stops second
  have "sync_data (Suc (Suc 0)) example_settings failing_environment example_world =
       Some (Inl (SyncError other_message),
             example_world\<lparr>sync_calls := sync_calls example_world + Suc 0 + Suc 0,
               sync_log := sync_log example_world
                 @ map (\<lambda>e. (e, pass_target failing_environment example_world)) (take (Suc 0) entity_order)
                 @ map (\<lambda>e. (e, latest_number failing_environment (head_reads example_world + 2)
                               - (latest_number failing_environment (Suc (head_reads example_world))
                                  - int_of_digits ''1000'')))
                     (take (Suc 0) entity_order),
               head_reads := head_reads example_world + 3,
               config_row := (config_row example_world)\<lparr>snapshotBlockLag :=
                   latest_number failing_environment (Suc (head_reads example_world))
                   - int_of_digits ''1000''\<rparr>,
               committed_config := (config_row example_world)\<lparr>snapshotBlockLag :=
                   latest_number failing_environment (Suc (head_reads example_world))
                   - int_of_digits ''1000''\<rparr>\<rparr>)"
    by blast
  then have b: "sync_data (Suc (Suc 0)) example_settings failing_environment example_world =
       Some (Inl (SyncError other_message),
             example_world\<lparr>sync_calls := 2, sync_log := [(User, 1030), (User, 1000)],
               head_reads := 3,
               config_row := example_config\<lparr>snapshotBlockLag := 50\<rparr>,
               committed_config := example_config\<lparr>snapshotBlockLag := 50\<rparr>\<rparr>)"
    by (simp del: sync_data.simps
          add: int_of_1000 pass_target_def entity_order_def env start)
  show ?thesis using a b by simp
qed

text \<open>
  Claim C9. A pass in which the seven calls succeed returns the block at the target
  (chain head minus the lag the pass started with), and it writes and commits the row with
  \<open>lastSyncBlock\<close> equal to that target and \<open>snapshotBlockLag\<close> equal to the maximum of
  the lag minus \<^verbatim>\<open>SNAPSHOT_BLOCK_LAG_STEP\<close> and \<^verbatim>\<open>SNAPSHOT_BLOCK_LAG\<close>. So the new lag is
  never below the floor, and it is exactly one step less than the old one as long as that
  does not go below the floor.
\<close>

theorem sync_data_success_persists:
  assumes ok: "\<forall>k<7. subgraph_sync env (sync_calls w + k) = Synced"
  shows "let lag = snapshotBlockLag (config_row w);
             c' = (config_row w)\<lparr>lastSyncBlock := pass_target env w,
                     snapshotBlockLag := max (lag - SNAPSHOT_BLOCK_LAG_STEP st) (SNAPSHOT_BLOCK_LAG st)\<rparr>;
             w' = w\<lparr>head_reads := Suc (head_reads w),
                    sync_calls := sync_calls w + 7,
                    sync_log := sync_log w @ map (\<lambda>e. (e, pass_target env w)) entity_order,
                    config_row := c', committed_config := c'\<rparr>
         in sync_data (Suc fuel) st env w = Some (Inr (get_block env (pass_target env w)), w')
            \<and> pass_target env w = latest_number env (head_reads w) - lag
            \<and> lastSyncBlock (committed_config w') = pass_target env w
            \<and> snapshotBlockLag (committed_config w') =
                 max (lag - SNAPSHOT_BLOCK_LAG_STEP st) (SNAPSHOT_BLOCK_LAG st)
            \<and> SNAPSHOT_BLOCK_LAG st \<le> snapshotBlockLag (committed_config w')
            \<and> (SNAPSHOT_BLOCK_LAG st \<le> lag - SNAPSHOT_BLOCK_LAG_STEP st \<longrightarrow>
                 snapshotBlockLag (committed_config w') = lag - SNAPSHOT_BLOCK_LAG_STEP st)"
  using sync_data_pass_succeeds [OF ok, of fuel st]
  by (simp add: Let_def pass_target_def)

text \<open>
  A pass at chain head 1050 with lag 20, step 1 and floor 10: the row is committed with
  \<open>lastSyncBlock = 1030\<close> and \<open>snapshotBlockLag = 19\<close>.
\<close>

theorem sync_data_success_persists_example:
  "sync_data (Suc 0) example_settings quiet_environment example_world =
     Some (Inr \<lparr>block_number = 1030, block_datetime = 1030000000, is_for_past = False\<rparr>,
           example_world\<lparr>head_reads := 1, sync_calls := 7,
             sync_log := [(User, 1030), (Symbol, 1030), (Account, 1030), (BalanceChange, 1030),
                          (Quote, 1030), (TradeHistory, 1030), (DailyHistory, 1030)],
             config_row := example_config\<lparr>lastSyncBlock := 1030, snapshotBlockLag := 19\<rparr>,
             committed_config := example_config\<lparr>lastSyncBlock := 1030, snapshotBlockLag := 19\<rparr>\<rparr>)
   \<and> (10::int) \<le> 20 - 1"
proof -
  have ok: "\<forall>k<7. subgraph_sync quiet_environment (sync_calls example_world + k) = Synced"
    by (simp add: quiet_environment_def)
  have env: "\<And>k. latest_number quiet_environment k = 1050"
    "\<And>n. datetime_of quiet_environment n = n * 1000000"
    "\<And>n. past_of quiet_environment n = False"
    by (simp_all add: quiet_environment_def)
  have start: "sync_calls example_world = 0" "head_reads example_world = 0"
    "sync_log example_world = []" "config_row example_world = example_config"
    "snapshotBlockLag example_config = 20"
    "SNAPSHOT_BLOCK_LAG example_settings = 10" "SNAPSHOT_BLOCK_LAG_STEP example_settings = 1"
    by (simp_all add: example_world_def example_config_def example_settings_def)
  show ?thesis
    using sync_data_success_persists [OF ok, where fuel = 0 and st = example_settings]
    by (simp del: sync_data.simps
          add: Let_def pass_target_def entity_order_def get_block_def env start)
qed

subsection \<open>The exchange reconciler\<close>

lemmas reconciler_defs =
  prepare_hedger_binance_snapshot_def deposit_baseline_def transfer_sum_def
  internal_transfer_sum_def sum_amount_def live_metrics_def decimal_div_def past_metrics_def
  stat_message_def in_window_def paid_funding_fee_def received_funding_fee_def
  live_next_funding_fee_def save_def Let_def

lemmas example_defs =
  example_settings_def funding_environment_def quiet_environment_def example_context_def
  failing_environment_def other_message_def example_hedger_def example_account_def live_block_def past_block_def transfer_world_def
  transfer_rows_def example_world_def example_config_def live_snapshot_def live_trace_def
  empty_account_hedger_def liquidated_account_hedger_def funding_rows_def funding_world_def
  content_of_balance_def older_message_def newer_message_def stale_message_def
  foreign_message_def message_world_def snapshot_world_def past_snapshot_def
  funding_snapshot_def rerun_snapshot_def later_snapshot_def

lemma sum_amount_split:
  "(\<And>r. \<not> (P r \<and> Q r)) \<Longrightarrow>
   sum_amount P rows + sum_amount Q rows = sum_amount (\<lambda>r. P r \<or> Q r) rows"
  by (induction rows) (auto simp: sum_amount_def)

lemma sum_amount_cong:
  "(\<And>r. P r = Q r) \<Longrightarrow> sum_amount P rows = sum_amount Q rows"
proof -
  assume "\<And>r. P r = Q r"
  then have "P = Q" by (simp add: fun_eq_iff)
  then show ?thesis by simp
qed

lemma deposit_baseline_scaled:
  "deposit_baseline ctx h b w =
     (transfer_sum ctx h b w + internal_transfer_sum ctx h b w) * 10 ^ 18 + binance_deposit_diff h"
  by (simp add: deposit_baseline_def Let_def abs_if)

lemma transfers_together:
  "transfer_sum ctx h b w + internal_transfer_sum ctx h b w =
     sum_amount (\<lambda>r. income_timestamp r \<le> block_datetime b
                     \<and> (income_type r = ''TRANSFER'' \<or> income_type r = ''INTERNAL_TRANSFER'')
                     \<and> income_tenant r = context_tenant ctx \<and> income_hedger r = hedger_name h)
       (binance_income_rows w)"
proof -
  let ?P = "\<lambda>r. income_timestamp r \<le> block_datetime b \<and> income_type r = ''TRANSFER''
                     \<and> income_tenant r = context_tenant ctx \<and> income_hedger r = hedger_name h"
  let ?Q = "\<lambda>r. income_timestamp r \<le> block_datetime b \<and> income_type r = ''INTERNAL_TRANSFER''
                     \<and> income_tenant r = context_tenant ctx \<and> income_hedger r = hedger_name h"
  have disjoint: "\<And>r. \<not> (?P r \<and> ?Q r)" by auto
  have "sum_amount ?P (binance_income_rows w) + sum_amount ?Q (binance_income_rows w) =
          sum_amount (\<lambda>r. ?P r \<or> ?Q r) (binance_income_rows w)"
    by (rule sum_amount_split [OF disjoint])
  also have "\<dots> = sum_amount (\<lambda>r. income_timestamp r \<le> block_datetime b
                     \<and> (income_type r = ''TRANSFER'' \<or> income_type r = ''INTERNAL_TRANSFER'')
                     \<and> income_tenant r = context_tenant ctx \<and> income_hedger r = hedger_name h)
       (binance_income_rows w)"
    by (rule sum_amount_cong) auto
  finally show ?thesis by (simp add: transfer_sum_def internal_transfer_sum_def)
qed

lemma prepare_deposit:
  "prepare_hedger_binance_snapshot st env ctx h b w = (Inr s, w') \<Longrightarrow>
   binance_deposit s = deposit_baseline ctx h b w"
  by (auto simp: prepare_hedger_binance_snapshot_def Let_def
           split: prod.splits sum.splits if_splits)

text \<open>
  Claim C4. The deposit baseline is the sum of the amounts of the income rows of the
  tenant and the hedger that have type \<^verbatim>\<open>TRANSFER\<close> or \<^verbatim>\<open>INTERNAL_TRANSFER\<close> and a
  timestamp up to the block's, multiplied by \<open>10 ^ 18\<close> (the two branches on the sign
  give the same signed product), plus \<^verbatim>\<open>binance_deposit_diff\<close>; it is the
  \<^verbatim>\<open>binance_deposit\<close> of every snapshot the reconciler returns.
\<close>

theorem deposit_baseline_signed_sum:
  "deposit_baseline ctx h b w =
     sum_amount (\<lambda>r. income_timestamp r \<le> block_datetime b
                     \<and> (income_type r = ''TRANSFER'' \<or> income_type r = ''INTERNAL_TRANSFER'')
                     \<and> income_tenant r = context_tenant ctx \<and> income_hedger r = hedger_name h)
       (binance_income_rows w) * 10 ^ 18
     + binance_deposit_diff h
   \<and> (\<forall>s w'. prepare_hedger_binance_snapshot st env ctx h b w = (Inr s, w') \<longrightarrow>
         binance_deposit s = deposit_baseline ctx h b w)"
  using deposit_baseline_scaled [of ctx h b w] transfers_together [of ctx h b w]
    prepare_deposit [of st env ctx h b w]
  by simp

lemma next_funding_fee_sum:
  "next_funding_fee env ps acc w =
     (acc + sum_list (map (\<lambda>p. - notional p * real_time_funding_rate env (symbol p) * 10 ^ 18) ps),
      w\<lparr>trace := trace w @ map (\<lambda>p. RealTimeFundingRate (symbol p)) ps\<rparr>)"
  by (induction ps arbitrary: acc w) (simp_all add: Let_def algebra_simps)


lemma prepare_live_zero:
  assumes "\<not> is_for_past b" and "totalMarginBalance (futures_account h) = 0"
  shows "prepare_hedger_binance_snapshot st env ctx h b w =
           (Inl (if totalMaintMargin (futures_account h) = 0 then InvalidOperation else DivisionByZero),
            w\<lparr>trace := trace w @ [FuturesAccount (hedger_name h)]\<rparr>)"
  using assms
  by (simp add: prepare_hedger_binance_snapshot_def live_metrics_def decimal_div_def Let_def)

lemma prepare_live_nonzero:
  assumes "\<not> is_for_past b" and "totalMarginBalance (futures_account h) \<noteq> 0"
  shows "\<exists>s. prepare_hedger_binance_snapshot st env ctx h b w =
           (Inr s, save s (w\<lparr>trace := trace w
               @ [FuturesAccount (hedger_name h), FuturesPositionInformation (hedger_name h)]
               @ map (\<lambda>p. RealTimeFundingRate (symbol p))
                   (filter (\<lambda>p. notional p \<noteq> 0) (futures_position_information h))\<rparr>))
         \<and> binance_maintenance_margin s = totalMaintMargin (futures_account h) * 10 ^ 18
         \<and> binance_total_balance s = totalMarginBalance (futures_account h) * 10 ^ 18
         \<and> binance_account_health_ratio s =
              100 - (totalMaintMargin (futures_account h) * 10 ^ 18
                     / (totalMarginBalance (futures_account h) * 10 ^ 18)) * 100
         \<and> binance_next_funding_fee s =
              Some (sum_list (map (\<lambda>p. - notional p * real_time_funding_rate env (symbol p) * 10 ^ 18)
                      (filter (\<lambda>p. notional p \<noteq> 0) (futures_position_information h))))"
  using assms
  by (simp add: prepare_hedger_binance_snapshot_def live_metrics_def decimal_div_def Let_def
        live_next_funding_fee_def next_funding_fee_sum)

lemma prepare_past_missing:
  assumes "is_for_past b" and "stat_message ctx b w = None"
  shows "prepare_hedger_binance_snapshot st env ctx h b w = (Inl StatBotMessageNotFound, w)"
  using assms
  by (simp add: prepare_hedger_binance_snapshot_def past_metrics_def Let_def)

lemma prepare_past_found:
  assumes "is_for_past b" and "stat_message ctx b w = Some m"
  shows "\<exists>s. prepare_hedger_binance_snapshot st env ctx h b w = (Inr s, save s w)
         \<and> binance_maintenance_margin s = Total_Maint_Margin (message_content m)
         \<and> binance_total_balance s = Total_Margin_Balance (message_content m)
         \<and> binance_account_health_ratio s = Health_Ratio (message_content m)
         \<and> binance_cross_upnl s = Total_Cross_UnPnl (message_content m)
         \<and> binance_av_balance s = Available_Balance (message_content m)
         \<and> binance_total_initial_margin s = Total_Initial_Margin (message_content m)
         \<and> binance_max_withdraw_amount s = Max_Withdraw_Amount (message_content m)
         \<and> max_open_interest s =
              hedger_max_open_interest_ratio h * Max_Withdraw_Amount (message_content m)
         \<and> binance_next_funding_fee s = None"
  using assms
  by (simp add: prepare_hedger_binance_snapshot_def past_metrics_def Let_def)

lemma live_example_run:
  "prepare_hedger_binance_snapshot example_settings funding_environment example_context
     example_hedger live_block transfer_world =
     (Inr live_snapshot, save live_snapshot (transfer_world\<lparr>trace := live_trace\<rparr>))"
  by (simp add: reconciler_defs example_defs)

text \<open>
  The scenario of the specification: a transfer sum of \<open>-150\<close>, an internal transfer sum
  of \<open>30\<close> and a \<^verbatim>\<open>binance_deposit_diff\<close> of \<open>5\<close> (next to a later row and a row of
  another hedger, which do not count) give \<open>-(120 * 10 ^ 18) + 5\<close>.
\<close>

theorem deposit_baseline_signed_sum_scenario:
  "transfer_sum example_context example_hedger live_block transfer_world = - 150
   \<and> internal_transfer_sum example_context example_hedger live_block transfer_world = 30
   \<and> binance_deposit_diff example_hedger = 5
   \<and> deposit_baseline example_context example_hedger live_block transfer_world
       = - (120 * 10 ^ 18) + 5
   \<and> binance_deposit live_snapshot = - (120 * 10 ^ 18) + 5"
proof -
  have sums: "transfer_sum example_context example_hedger live_block transfer_world = - 150"
    "internal_transfer_sum example_context example_hedger live_block transfer_world = 30"
    "binance_deposit_diff example_hedger = 5"
    by (simp_all add: reconciler_defs example_defs)
  have both: "sum_amount (\<lambda>r. income_timestamp r \<le> block_datetime live_block
                     \<and> (income_type r = ''TRANSFER'' \<or> income_type r = ''INTERNAL_TRANSFER'')
                     \<and> income_tenant r = context_tenant example_context
                     \<and> income_hedger r = hedger_name example_hedger)
                (binance_income_rows transfer_world) = - 120"
    by (simp add: reconciler_defs example_defs)
  show ?thesis
    using deposit_baseline_signed_sum [of example_context example_hedger live_block transfer_world
        example_settings funding_environment] live_example_run sums both
    by simp
qed

text \<open>
  Claim C10. On a live block the health ratio divides by the scaled
  \<^verbatim>\<open>totalMarginBalance\<close> without a check. When the reported balance is not zero the
  reconciler returns a snapshot whose health ratio is
  \<open>100 - (maintenance margin / total balance) * 100\<close>. When it is zero the division
  raises (\<^verbatim>\<open>DivisionByZero\<close>, or \<^verbatim>\<open>InvalidOperation\<close> for \<open>0 / 0\<close>): the reconciler
  stops there, after the account call, and no snapshot row is queued.
\<close>

theorem live_health_ratio_unguarded_division:
  assumes live: "\<not> is_for_past b"
  shows "(totalMarginBalance (futures_account h) \<noteq> 0 \<longrightarrow>
            (\<exists>s w'. prepare_hedger_binance_snapshot st env ctx h b w = (Inr s, w')
               \<and> binance_account_health_ratio s =
                    100 - (totalMaintMargin (futures_account h) * 10 ^ 18
                           / (totalMarginBalance (futures_account h) * 10 ^ 18)) * 100))
       \<and> (totalMarginBalance (futures_account h) = 0 \<longrightarrow>
            prepare_hedger_binance_snapshot st env ctx h b w =
              (Inl (if totalMaintMargin (futures_account h) = 0 then InvalidOperation
                    else DivisionByZero),
               w\<lparr>trace := trace w @ [FuturesAccount (hedger_name h)]\<rparr>))"
proof (intro conjI impI)
  assume "totalMarginBalance (futures_account h) \<noteq> 0"
  from prepare_live_nonzero [OF live this, of st env ctx w]
  show "\<exists>s w'. prepare_hedger_binance_snapshot st env ctx h b w = (Inr s, w')
               \<and> binance_account_health_ratio s =
                    100 - (totalMaintMargin (futures_account h) * 10 ^ 18
                           / (totalMarginBalance (futures_account h) * 10 ^ 18)) * 100"
    by blast
next
  assume "totalMarginBalance (futures_account h) = 0"
  from prepare_live_zero [OF live this]
  show "prepare_hedger_binance_snapshot st env ctx h b w =
              (Inl (if totalMaintMargin (futures_account h) = 0 then InvalidOperation
                    else DivisionByZero),
               w\<lparr>trace := trace w @ [FuturesAccount (hedger_name h)]\<rparr>)" .
qed

text \<open>
  An account whose margins are all zero: the reconciler stops with \<^verbatim>\<open>InvalidOperation\<close>
  and the session holds no new row. The example account, with balance 200 and maintenance
  margin 10, has health ratio 95.
\<close>

theorem live_health_ratio_unguarded_division_examples:
  "prepare_hedger_binance_snapshot example_settings funding_environment example_context
     empty_account_hedger live_block transfer_world =
     (Inl InvalidOperation, transfer_world\<lparr>trace := [FuturesAccount ''hedger1'']\<rparr>)
   \<and> pending (transfer_world\<lparr>trace := [FuturesAccount ''hedger1'']\<rparr>) = []
   \<and> binance_account_health_ratio live_snapshot = 100 - (10 * 10 ^ 18 / (200 * 10 ^ 18)) * 100"
proof -
  have live: "\<not> is_for_past live_block" by (simp add: live_block_def)
  have zero: "totalMarginBalance (futures_account empty_account_hedger) = 0"
    "totalMaintMargin (futures_account empty_account_hedger) = 0"
    "hedger_name empty_account_hedger = ''hedger1''"
    by (simp_all add: example_defs)
  have start: "trace transfer_world = []" "pending transfer_world = []"
    by (simp_all add: example_defs)
  have ratio: "binance_account_health_ratio live_snapshot = 95"
    by (simp add: live_snapshot_def)
  show ?thesis
    using live_health_ratio_unguarded_division [OF live, of empty_account_hedger example_settings
        funding_environment example_context transfer_world] zero start ratio
    by simp
qed

text \<open>
  Claim C6, as stated, fails on a live block whose account reports a zero
  \<^verbatim>\<open>totalMarginBalance\<close>: the account endpoint is called, the division raises, the
  positions endpoint is never called and no \<^verbatim>\<open>binance_next_funding_fee\<close> is set.
\<close>

theorem live_branch_zero_balance_stops:
  "\<not> is_for_past live_block
   \<and> prepare_hedger_binance_snapshot example_settings funding_environment example_context
       liquidated_account_hedger live_block transfer_world =
       (Inl DivisionByZero, transfer_world\<lparr>trace := [FuturesAccount ''hedger1'']\<rparr>)
   \<and> FuturesPositionInformation ''hedger1''
       \<notin> set (trace (transfer_world\<lparr>trace := [FuturesAccount ''hedger1'']\<rparr>))"
  by (simp add: reconciler_defs example_defs)

text \<open>
  Claim C6, amended. On a past block for which the query finds a fallback message \<open>m\<close>,
  the account metrics of the snapshot are the fields of the content of \<open>m\<close>
  (\<^verbatim>\<open>max_open_interest\<close> is the hedger's ratio times its \<^verbatim>\<open>Max Withdraw Amount\<close>),
  \<^verbatim>\<open>binance_next_funding_fee\<close> is not set and no call leaves the job (the trace is the
  one before). On a live block whose account reports a non-zero \<^verbatim>\<open>totalMarginBalance\<close>,
  the reconciler calls the account endpoint, then the positions endpoint, then the funding
  rate of each position with non-zero notional; the health ratio is
  \<open>100 - (maintenance margin / total balance) * 100\<close> and \<^verbatim>\<open>binance_next_funding_fee\<close>
  is the sum over those positions of \<open>- notional * funding_rate * 10 ^ 18\<close>.
\<close>

theorem reconciler_branches:
  "(is_for_past b \<and> stat_message ctx b w = Some m \<longrightarrow>
      (\<exists>s. prepare_hedger_binance_snapshot st env ctx h b w = (Inr s, save s w)
         \<and> binance_maintenance_margin s = Total_Maint_Margin (message_content m)
         \<and> binance_total_balance s = Total_Margin_Balance (message_content m)
         \<and> binance_account_health_ratio s = Health_Ratio (message_content m)
         \<and> binance_cross_upnl s = Total_Cross_UnPnl (message_content m)
         \<and> binance_av_balance s = Available_Balance (message_content m)
         \<and> binance_total_initial_margin s = Total_Initial_Margin (message_content m)
         \<and> binance_max_withdraw_amount s = Max_Withdraw_Amount (message_content m)
         \<and> max_open_interest s =
              hedger_max_open_interest_ratio h * Max_Withdraw_Amount (message_content m)
         \<and> binance_next_funding_fee s = None))
   \<and> (\<not> is_for_past b \<and> totalMarginBalance (futures_account h) \<noteq> 0 \<longrightarrow>
      (\<exists>s. prepare_hedger_binance_snapshot st env ctx h b w =
           (Inr s, save s (w\<lparr>trace := trace w
               @ [FuturesAccount (hedger_name h), FuturesPositionInformation (hedger_name h)]
               @ map (\<lambda>p. RealTimeFundingRate (symbol p))
                   (filter (\<lambda>p. notional p \<noteq> 0) (futures_position_information h))\<rparr>))
         \<and> binance_maintenance_margin s = totalMaintMargin (futures_account h) * 10 ^ 18
         \<and> binance_total_balance s = totalMarginBalance (futures_account h) * 10 ^ 18
         \<and> binance_account_health_ratio s =
              100 - (totalMaintMargin (futures_account h) * 10 ^ 18
                     / (totalMarginBalance (futures_account h) * 10 ^ 18)) * 100
         \<and> binance_next_funding_fee s =
              Some (sum_list (map (\<lambda>p. - notional p * real_time_funding_rate env (symbol p) * 10 ^ 18)
                      (filter (\<lambda>p. notional p \<noteq> 0) (futures_position_information h))))))"
  using prepare_past_found [of b ctx w m st env h] prepare_live_nonzero [of b h st env ctx w]
  by blast

lemma past_example_found:
  "stat_message example_context past_block message_world = Some older_message"
  by (simp add: reconciler_defs example_defs)

lemma past_example_run:
  "prepare_hedger_binance_snapshot example_settings funding_environment example_context
     example_hedger past_block message_world = (Inr past_snapshot, save past_snapshot message_world)"
  by (simp add: reconciler_defs example_defs)

text \<open>
  Both branches on the example hedger: the past block takes the metrics of the message
  found and leaves the trace empty; the live block makes the three calls.
\<close>

theorem reconciler_branches_examples:
  "binance_total_balance past_snapshot = Total_Margin_Balance (message_content older_message)
   \<and> binance_next_funding_fee past_snapshot = None
   \<and> trace (save past_snapshot message_world) = []
   \<and> trace (save live_snapshot (transfer_world\<lparr>trace := live_trace\<rparr>)) =
        [FuturesAccount ''hedger1'', FuturesPositionInformation ''hedger1'',
         RealTimeFundingRate ''BTCUSDT'']
   \<and> binance_next_funding_fee live_snapshot = Some (- 1000 * (1 / 10000) * 10 ^ 18)"
proof -
  have past: "is_for_past past_block \<and>
      stat_message example_context past_block message_world = Some older_message"
    using past_example_found by (simp add: past_block_def)
  have live: "\<not> is_for_past live_block \<and> totalMarginBalance (futures_account example_hedger) \<noteq> 0"
    by (simp add: example_defs)
  have a: "\<exists>s. prepare_hedger_binance_snapshot example_settings funding_environment example_context
              example_hedger past_block message_world = (Inr s, save s message_world)
            \<and> binance_total_balance s = Total_Margin_Balance (message_content older_message)
            \<and> binance_next_funding_fee s = None"
    using reconciler_branches [of past_block example_context message_world older_message
        example_settings funding_environment example_hedger] past
    by blast
  have b: "binance_total_balance past_snapshot = Total_Margin_Balance (message_content older_message)
           \<and> binance_next_funding_fee past_snapshot = None"
    using a past_example_run by auto
  have a': "\<exists>s. prepare_hedger_binance_snapshot example_settings funding_environment example_context
              example_hedger live_block transfer_world =
              (Inr s, save s (transfer_world\<lparr>trace := trace transfer_world
                 @ [FuturesAccount (hedger_name example_hedger),
                    FuturesPositionInformation (hedger_name example_hedger)]
                 @ map (\<lambda>p. RealTimeFundingRate (symbol p))
                     (filter (\<lambda>p. notional p \<noteq> 0) (futures_position_information example_hedger))\<rparr>))
            \<and> binance_next_funding_fee s =
                Some (sum_list (map (\<lambda>p. - notional p * real_time_funding_rate funding_environment (symbol p) * 10 ^ 18)
                      (filter (\<lambda>p. notional p \<noteq> 0) (futures_position_information example_hedger))))"
    using reconciler_branches [of live_block example_context transfer_world older_message
        example_settings funding_environment example_hedger] live
    by blast
  have fee: "sum_list (map (\<lambda>p. - notional p * real_time_funding_rate funding_environment (symbol p) * 10 ^ 18)
                      (filter (\<lambda>p. notional p \<noteq> 0) (futures_position_information example_hedger)))
             = - 1000 * (1 / 10000) * 10 ^ 18"
    by (simp add: example_defs)
  have b': "binance_next_funding_fee live_snapshot = Some (- 1000 * (1 / 10000) * 10 ^ 18)"
    using a' live_example_run fee by auto
  have c: "trace (save past_snapshot message_world) = []"
    "trace (save live_snapshot (transfer_world\<lparr>trace := live_trace\<rparr>)) =
        [FuturesAccount ''hedger1'', FuturesPositionInformation ''hedger1'',
         RealTimeFundingRate ''BTCUSDT'']"
    by (simp_all add: save_def example_defs)
  show ?thesis using b b' c by simp
qed

text \<open>
  Claim C5, as stated, fails where it says that the most recent message of the window
  is used. Two messages of the tenant lie in the window, the older one first in the order
  the query returns them: the reconciler takes the older one (balance 200, not 300).
\<close>

theorem fallback_not_most_recent:
  "is_for_past past_block
   \<and> in_window example_context past_block older_message
   \<and> in_window example_context past_block newer_message
   \<and> message_timestamp older_message < message_timestamp newer_message
   \<and> stat_message example_context past_block message_world = Some older_message
   \<and> prepare_hedger_binance_snapshot example_settings funding_environment example_context
       example_hedger past_block message_world = (Inr past_snapshot, save past_snapshot message_world)
   \<and> binance_total_balance past_snapshot = Total_Margin_Balance (message_content older_message)
   \<and> binance_total_balance past_snapshot \<noteq> Total_Margin_Balance (message_content newer_message)"
  by (simp add: reconciler_defs example_defs)

text \<open>
  Claim C5, amended. On a past block, when no message of the tenant has a timestamp in
  the three minutes up to the block's, the reconciler raises and leaves the state as it
  was, so no row is queued. When there is one, it uses the first message of the window
  in the order in which the query returns the rows (the statement has no ordering), which
  need not be the most recent.
\<close>

theorem fallback_lookup:
  assumes past: "is_for_past b"
  shows "((\<forall>m \<in> set (stats_bot_messages w). \<not> in_window ctx b m) \<longrightarrow>
            prepare_hedger_binance_snapshot st env ctx h b w = (Inl StatBotMessageNotFound, w))
       \<and> ((\<exists>m \<in> set (stats_bot_messages w). in_window ctx b m) \<longrightarrow>
            (\<exists>i s. i < length (stats_bot_messages w)
               \<and> in_window ctx b (stats_bot_messages w ! i)
               \<and> (\<forall>j<i. \<not> in_window ctx b (stats_bot_messages w ! j))
               \<and> prepare_hedger_binance_snapshot st env ctx h b w = (Inr s, save s w)
               \<and> binance_maintenance_margin s =
                    Total_Maint_Margin (message_content (stats_bot_messages w ! i))
               \<and> binance_total_balance s =
                    Total_Margin_Balance (message_content (stats_bot_messages w ! i))
               \<and> binance_account_health_ratio s =
                    Health_Ratio (message_content (stats_bot_messages w ! i))
               \<and> binance_max_withdraw_amount s =
                    Max_Withdraw_Amount (message_content (stats_bot_messages w ! i))))"
proof (intro conjI impI)
  assume "\<forall>m \<in> set (stats_bot_messages w). \<not> in_window ctx b m"
  then have "stat_message ctx b w = None"
    by (simp add: stat_message_def find_None_iff)
  from prepare_past_missing [OF past this]
  show "prepare_hedger_binance_snapshot st env ctx h b w = (Inl StatBotMessageNotFound, w)" .
next
  assume "\<exists>m \<in> set (stats_bot_messages w). in_window ctx b m"
  then have "stat_message ctx b w \<noteq> None"
    by (auto simp: stat_message_def find_None_iff)
  then obtain m where found: "stat_message ctx b w = Some m" by blast
  then obtain i where i: "i < length (stats_bot_messages w)"
      "in_window ctx b (stats_bot_messages w ! i)" "m = stats_bot_messages w ! i"
      "\<forall>j<i. \<not> in_window ctx b (stats_bot_messages w ! j)"
    by (auto simp: stat_message_def find_Some_iff)
  from prepare_past_found [OF past found, of st env h] i
  show "\<exists>i s. i < length (stats_bot_messages w)
               \<and> in_window ctx b (stats_bot_messages w ! i)
               \<and> (\<forall>j<i. \<not> in_window ctx b (stats_bot_messages w ! j))
               \<and> prepare_hedger_binance_snapshot st env ctx h b w = (Inr s, save s w)
               \<and> binance_maintenance_margin s =
                    Total_Maint_Margin (message_content (stats_bot_messages w ! i))
               \<and> binance_total_balance s =
                    Total_Margin_Balance (message_content (stats_bot_messages w ! i))
               \<and> binance_account_health_ratio s =
                    Health_Ratio (message_content (stats_bot_messages w ! i))
               \<and> binance_max_withdraw_amount s =
                    Max_Withdraw_Amount (message_content (stats_bot_messages w ! i))"
    by blast
qed

text \<open>
  The scenario of the specification: a past block and no message at all. The reconciler
  raises and the session holds no row. With the four messages of the other example, one
  of the two in the window is used.
\<close>

theorem fallback_lookup_examples:
  "prepare_hedger_binance_snapshot example_settings funding_environment example_context
     example_hedger past_block transfer_world = (Inl StatBotMessageNotFound, transfer_world)
   \<and> pending transfer_world = []
   \<and> (binance_total_balance past_snapshot = 200 \<or> binance_total_balance past_snapshot = 300)"
proof -
  have past: "is_for_past past_block" by (simp add: past_block_def)
  have none: "\<forall>m \<in> set (stats_bot_messages transfer_world). \<not> in_window example_context past_block m"
    by (simp add: example_defs)
  have some: "\<exists>m \<in> set (stats_bot_messages message_world). in_window example_context past_block m"
    by (simp add: in_window_def example_defs)
  have first: "prepare_hedger_binance_snapshot example_settings funding_environment example_context
     example_hedger past_block transfer_world = (Inl StatBotMessageNotFound, transfer_world)"
    using fallback_lookup [OF past, of transfer_world example_context example_settings
        funding_environment example_hedger] none
    by blast
  have "\<exists>i s. i < length (stats_bot_messages message_world)
          \<and> in_window example_context past_block (stats_bot_messages message_world ! i)
          \<and> prepare_hedger_binance_snapshot example_settings funding_environment example_context
               example_hedger past_block message_world = (Inr s, save s message_world)
          \<and> binance_total_balance s =
               Total_Margin_Balance (message_content (stats_bot_messages message_world ! i))"
    using fallback_lookup [OF past, of message_world example_context example_settings
        funding_environment example_hedger] some
    by blast
  then obtain i where i: "i < length (stats_bot_messages message_world)"
      "in_window example_context past_block (stats_bot_messages message_world ! i)"
      "binance_total_balance past_snapshot =
         Total_Margin_Balance (message_content (stats_bot_messages message_world ! i))"
    using past_example_run by auto
  have len: "length (stats_bot_messages message_world) = 4"
    by (simp add: example_defs)
  from i(1) len have "i = 0 \<or> i = 1 \<or> i = 2 \<or> i = 3" by arith
  then have second: "binance_total_balance past_snapshot = 200 \<or> binance_total_balance past_snapshot = 300"
    using i(2,3) by (auto simp: in_window_def example_defs)
  have "pending transfer_world = []" by (simp add: example_defs)
  then show ?thesis using first second by simp
qed

text \<open>
  Claim C7: the code at a failing input. The tenant has two hedgers, each with a paid and
  a received \<^verbatim>\<open>FUNDING_FEE\<close> row. The two funding statements filter on the tenant and not
  on the hedger (the two transfer statements of the same function filter on both), so the
  snapshot of \<open>hedger1\<close> holds \<open>-7\<close> and \<open>8\<close>, the sums over both hedgers, where the rows
  of \<open>hedger1\<close> alone sum to \<open>-3\<close> and \<open>2\<close>.
\<close>

theorem funding_fee_sums_ignore_hedger:
  "prepare_hedger_binance_snapshot example_settings funding_environment example_context
     example_hedger live_block funding_world =
     (Inr funding_snapshot, save funding_snapshot (funding_world\<lparr>trace := live_trace\<rparr>))
   \<and> binance_paid_funding_fee funding_snapshot = - 7
   \<and> binance_received_funding_fee funding_snapshot = 8
   \<and> sum_amount (\<lambda>r. income_timestamp r \<le> block_datetime live_block \<and> income_amount r < 0
                    \<and> income_type r = ''FUNDING_FEE''
                    \<and> income_tenant r = context_tenant example_context
                    \<and> income_hedger r = hedger_name example_hedger)
        (binance_income_rows funding_world) = - 3
   \<and> sum_amount (\<lambda>r. income_timestamp r \<le> block_datetime live_block \<and> income_amount r > 0
                    \<and> income_type r = ''FUNDING_FEE''
                    \<and> income_tenant r = context_tenant example_context
                    \<and> income_hedger r = hedger_name example_hedger)
        (binance_income_rows funding_world) = 2"
  by (simp add: reconciler_defs example_defs)

subsection \<open>Writing snapshot rows\<close>

text \<open>
  Claim C8, as stated, fails: the reconciler is run again for a block whose row is in the
  table. It builds a row with the same tenant, name and timestamp (and another
  \<^verbatim>\<open>binance_next_funding_fee\<close>, the funding rate having changed) and queues it; the flush
  raises on the duplicate key, whether the key is the triple or the timestamp alone, and
  the row in the table is not overwritten.
\<close>

theorem rerun_same_block_raises:
  "snapshot_rows snapshot_world = [live_snapshot]
   \<and> prepare_hedger_binance_snapshot example_settings quiet_environment example_context
       example_hedger live_block snapshot_world =
       (Inr rerun_snapshot, save rerun_snapshot (snapshot_world\<lparr>trace := live_trace\<rparr>))
   \<and> snapshot_key rerun_snapshot = snapshot_key live_snapshot
   \<and> rerun_snapshot \<noteq> live_snapshot
   \<and> flush snapshot_key (save rerun_snapshot (snapshot_world\<lparr>trace := live_trace\<rparr>))
       = Inl IntegrityError
   \<and> flush timestamp (save rerun_snapshot (snapshot_world\<lparr>trace := live_trace\<rparr>))
       = Inl IntegrityError"
  by (simp add: reconciler_defs example_defs flush_def snapshot_key_def)

text \<open>
  Claim C8, amended. Writing a snapshot is a plain insert. \<^verbatim>\<open>save\<close> queues the row; at
  the flush a row whose key is not in the table is added after the rows that are there,
  which stay as they are, and a row whose key is in the table makes the flush raise an
  integrity error: it is neither written over the old row, nor added as a second row,
  nor written in part. This holds for every choice of the key columns.
\<close>

theorem save_is_plain_insert:
  assumes "pending w = []"
  shows "(pk r \<notin> pk ` set (snapshot_rows w) \<longrightarrow>
            flush pk (save r w) = Inr (w\<lparr>pending := [], snapshot_rows := snapshot_rows w @ [r]\<rparr>))
       \<and> (pk r \<in> pk ` set (snapshot_rows w) \<longrightarrow> flush pk (save r w) = Inl IntegrityError)"
  using assms by (simp add: flush_def save_def)

text \<open>
  On the table that holds the row of block 1030: the row of a later block is added, the
  row of the same block is refused.
\<close>

theorem save_is_plain_insert_examples:
  "flush snapshot_key (save later_snapshot snapshot_world) =
     Inr (snapshot_world\<lparr>pending := [], snapshot_rows := [live_snapshot, later_snapshot]\<rparr>)
   \<and> flush snapshot_key (save rerun_snapshot snapshot_world) = Inl IntegrityError"
proof -
  have empty: "pending snapshot_world = []" by (simp add: example_defs)
  have rows: "snapshot_rows snapshot_world = [live_snapshot]" by (simp add: example_defs)
  have new: "snapshot_key later_snapshot \<notin> snapshot_key ` set (snapshot_rows snapshot_world)"
    by (simp add: snapshot_key_def example_defs)
  have old: "snapshot_key rerun_snapshot \<in> snapshot_key ` set (snapshot_rows snapshot_world)"
    by (simp add: snapshot_key_def example_defs)
  show ?thesis
    using save_is_plain_insert [OF empty, of snapshot_key later_snapshot]
      save_is_plain_insert [OF empty, of snapshot_key rerun_snapshot] new old rows
    by simp
qed

subsection \<open>The snapshot orchestrator and the pipeline run\<close>

lemmas orchestrator_examples =
  idle_collaborators_def sync_only_context_def liquidator_context_def regressing_environment_def
  low_lag_world_def genesis_block_def stale_world_def block_500_def first_run_world_def
  second_run_world_def raised_lag_world_def young_chain_environment_def
  negative_run_world_def snapshot_run_world_def recovered_run_world_def
  lagging_environment_def

lemma sync_entities_config_row:
  "sync_entities env t es w = (r, w') \<Longrightarrow>
   config_row w' = config_row w \<and> committed_config w' = committed_config w"
  by (induction es arbitrary: w) (auto simp: Let_def split: sync_outcome.splits)

lemma sync_entities_log:
  "sync_entities env t es w = (Inr u, w') \<Longrightarrow> sync_log w' = sync_log w @ map (\<lambda>e. (e, t)) es"
  by (induction es arbitrary: w) (auto simp: Let_def split: sync_outcome.splits)

lemma sync_data_returns:
  "sync_data fuel st env w = Some (Inr b, w') \<Longrightarrow>
   lastSyncBlock (config_row w') = block_number b
   \<and> SNAPSHOT_BLOCK_LAG st \<le> snapshotBlockLag (config_row w')
   \<and> lastSnapshotBlock (config_row w') = lastSnapshotBlock (config_row w)
   \<and> committed_config w' = config_row w'
   \<and> (\<exists>pre. sync_log w' = pre @ map (\<lambda>e. (e, block_number b)) entity_order)"
proof (induction fuel arbitrary: w)
  case 0
  then show ?case by simp
next
  case (Suc fuel)
  let ?w1 = "w\<lparr>head_reads := Suc (head_reads w)\<rparr>"
  obtain r w2 where pass: "sync_entities env (pass_target env w) entity_order ?w1 = (r, w2)"
    by fastforce
  have cfg: "config_row w2 = config_row w"
    using sync_entities_config_row [OF pass] by simp
  show ?case
  proof (cases r)
    case (Inr u)
    have log: "sync_log w2 = sync_log w @ map (\<lambda>e. (e, pass_target env w)) entity_order"
      using sync_entities_log [of env "pass_target env w" entity_order ?w1 u w2] pass Inr
      by simp
    from Suc.prems pass cfg Inr
    have res: "b = get_block env (pass_target env w)"
      "w' = commit_config (upsert ((config_row w)\<lparr>lastSyncBlock := pass_target env w,
                snapshotBlockLag := max (snapshotBlockLag (config_row w) - SNAPSHOT_BLOCK_LAG_STEP st)
                                        (SNAPSHOT_BLOCK_LAG st)\<rparr>) w2)"
      by (auto simp: Let_def Block_latest_def backward_def get_block_def load_config_def
            pass_target_def)
    show ?thesis
      using res log
      by (auto simp: get_block_def upsert_def commit_config_def)
  next
    case (Inl msg)
    show ?thesis
    proof (cases "str_contains ''only indexed up to block number'' msg")
      case False
      with Suc.prems pass Inl show ?thesis
        by (simp add: Let_def Block_latest_def backward_def get_block_def load_config_def
              pass_target_def)
    next
      case True
      show ?thesis
      proof (cases "re_search msg")
        case None
        with Suc.prems pass Inl True show ?thesis
          by (simp add: Let_def Block_latest_def backward_def get_block_def load_config_def
                pass_target_def)
      next
        case (Some ds)
        let ?w4 = "commit_config (upsert ((load_config w2)\<lparr>snapshotBlockLag :=
                      block_number (fst (Block_latest env w2)) - int_of_digits ds\<rparr>)
                      (snd (Block_latest env w2)))"
        have rec: "sync_data fuel st env ?w4 = Some (Inr b, w')"
          using Suc.prems pass Inl True Some
          by (simp add: Let_def Block_latest_def backward_def get_block_def load_config_def
                pass_target_def split_def)
        have "lastSnapshotBlock (config_row ?w4) = lastSnapshotBlock (config_row w)"
          using cfg by (simp add: commit_config_def upsert_def load_config_def Block_latest_def)
        with Suc.IH [OF rec] show ?thesis by simp
      qed
    qed
  qed
qed

lemma do_fetch_snapshot_returns:
  "do_fetch_snapshot st env co ctx b w = (Inr (), w') \<Longrightarrow>
   config_row w' = (config_row w)\<lparr>lastSnapshotBlock := block_number b\<rparr>
   \<and> committed_config w' = config_row w'
   \<and> (lastSnapshotBlock (config_row w) = 0 \<or> lastSnapshotBlock (config_row w) < block_number b)"
  by (auto simp: do_fetch_snapshot_def Let_def load_config_def upsert_def commit_config_def
        flush_def split: if_splits prod.splits sum.splits)

text \<open>
  Claim C3, as stated, fails when \<open>lastSnapshotBlock\<close> is \<open>0\<close>: the test of lines 79 and
  83 starts with \<^verbatim>\<open>config.lastSnapshotBlock and\<close>, and \<open>0\<close> is false. With
  \<open>lastSnapshotBlock = 0\<close> and the resolved block \<open>0\<close>, the claim's condition \<open>0 \<ge> 0\<close>
  holds, nothing is raised and the liquidator reconciler runs.
\<close>

theorem stale_check_skipped_at_zero:
  "lastSnapshotBlock (load_config example_world) \<ge> block_number genesis_block
   \<and> do_fetch_snapshot example_settings quiet_environment idle_collaborators liquidator_context
       genesis_block example_world =
       (Inr (), example_world\<lparr>trace := [PrepareLiquidatorSnapshot ''liquidator1'']\<rparr>)"
  by (simp add: do_fetch_snapshot_def invoke_def flush_def load_config_def upsert_def
        commit_config_def Let_def orchestrator_examples example_defs)

text \<open>
  Claim C3, amended. When \<open>lastSnapshotBlock\<close> is not zero and is at least the number of
  the resolved block, \<^verbatim>\<open>do_fetch_snapshot\<close> raises before the first reconciler: it has
  read the chain head once more and changed nothing else, so no call is logged, no row
  is queued and no row is written.
\<close>

theorem stale_snapshot_raises_first:
  assumes "lastSnapshotBlock (config_row w) \<noteq> 0"
    and "lastSnapshotBlock (config_row w) \<ge> block_number snapshot_block"
  shows "do_fetch_snapshot st env co ctx snapshot_block w =
           (Inl StaleSnapshot, w\<lparr>head_reads := Suc (head_reads w)\<rparr>)
       \<and> trace (snd (do_fetch_snapshot st env co ctx snapshot_block w)) = trace w
       \<and> pending (snd (do_fetch_snapshot st env co ctx snapshot_block w)) = pending w
       \<and> snapshot_rows (snd (do_fetch_snapshot st env co ctx snapshot_block w)) = snapshot_rows w
       \<and> config_row (snd (do_fetch_snapshot st env co ctx snapshot_block w)) = config_row w"
  using assms
  by (simp add: do_fetch_snapshot_def Let_def load_config_def Block_latest_def)

text \<open>
  The scenario of the specification: \<open>lastSnapshotBlock = 500\<close> and the resolved block is
  \<open>500\<close>. The context holds a hedger and a liquidator; neither reconciler is called.
\<close>

theorem stale_snapshot_raises_first_scenario:
  "do_fetch_snapshot example_settings quiet_environment idle_collaborators example_context
     block_500 stale_world = (Inl StaleSnapshot, stale_world\<lparr>head_reads := 1\<rparr>)
   \<and> trace (stale_world\<lparr>head_reads := 1\<rparr>) = []
   \<and> pending (stale_world\<lparr>head_reads := 1\<rparr>) = []
   \<and> snapshot_rows (stale_world\<lparr>head_reads := 1\<rparr>) = []"
proof -
  have a: "lastSnapshotBlock (config_row stale_world) \<noteq> 0"
    by (simp add: orchestrator_examples example_defs)
  have b: "lastSnapshotBlock (config_row stale_world) \<ge> block_number block_500"
    by (simp add: orchestrator_examples example_defs)
  have c: "head_reads stale_world = 0" "trace stale_world = []" "pending stale_world = []"
    "snapshot_rows stale_world = []"
    by (simp_all add: orchestrator_examples example_defs)
  show ?thesis
    using stale_snapshot_raises_first [OF a b, of example_settings quiet_environment
        idle_collaborators example_context] c
    by simp
qed

lemma first_run:
  "fetch_snapshot (Suc 0) example_settings regressing_environment idle_collaborators
     sync_only_context example_world = Some (Inr (), first_run_world)"
  by (simp add: fetch_snapshot_def Let_def Block_latest_def backward_def get_block_def
        load_config_def upsert_def commit_config_def entity_order_def
        orchestrator_examples example_defs)

lemma second_run:
  "fetch_snapshot (Suc (Suc 0)) example_settings regressing_environment idle_collaborators
     sync_only_context first_run_world = Some (Inr (), second_run_world)"
  by (simp add: fetch_snapshot_def Let_def Block_latest_def backward_def get_block_def
        load_config_def upsert_def commit_config_def entity_order_def
        lag_message_only lag_message_parsed int_of_1000
        orchestrator_examples example_defs)

lemma low_lag_run:
  "fetch_snapshot (Suc 0) example_settings quiet_environment idle_collaborators
     sync_only_context low_lag_world = Some (Inr (), raised_lag_world)"
  by (simp add: fetch_snapshot_def Let_def Block_latest_def backward_def get_block_def
        load_config_def upsert_def commit_config_def entity_order_def
        orchestrator_examples example_defs)

lemma negative_run:
  "fetch_snapshot (Suc 0) example_settings young_chain_environment idle_collaborators
     liquidator_context example_world = Some (Inr (), negative_run_world)"
  by (simp add: fetch_snapshot_def do_fetch_snapshot_def invoke_def flush_def Let_def
        Block_latest_def backward_def get_block_def load_config_def upsert_def
        commit_config_def entity_order_def orchestrator_examples example_defs)

lemma snapshot_run:
  "fetch_snapshot (Suc 0) example_settings quiet_environment idle_collaborators
     liquidator_context example_world = Some (Inr (), snapshot_run_world)"
  by (simp add: fetch_snapshot_def do_fetch_snapshot_def invoke_def flush_def Let_def
        Block_latest_def backward_def get_block_def load_config_def upsert_def
        commit_config_def entity_order_def orchestrator_examples example_defs)

lemma recovered_run:
  "fetch_snapshot (Suc (Suc 0)) example_settings lagging_environment idle_collaborators
     liquidator_context example_world = Some (Inr (), recovered_run_world)"
  by (simp add: fetch_snapshot_def do_fetch_snapshot_def invoke_def flush_def Let_def
        Block_latest_def backward_def get_block_def load_config_def upsert_def
        commit_config_def entity_order_def lag_message_only lag_message_parsed int_of_1000
        orchestrator_examples example_defs)

text \<open>
  Claim C2, as stated, fails three times. First, two successful runs in a row, the chain
  head at 1050 in both: the first commits \<open>lastSyncBlock = 1030\<close> (lag 20); in the second
  the indexer answers ``only indexed up to block number 1000'', the lag becomes 50, the
  pass is run again with target 1000 and the run commits \<open>lastSyncBlock = 1000\<close>, below
  1030. Second, a run in which no call raises, started with a lag of 5 under a floor of
  10: it commits the lag 10, a strict increase without any indexer-lag error. Third, a
  run with a snapshot at chain head 10 with lag 20: the resolved block is head minus lag,
  \<open>-10\<close>; the stale check is skipped because \<open>lastSnapshotBlock\<close> is \<open>0\<close>, and the run
  commits \<open>lastSnapshotBlock = -10\<close>.
\<close>

theorem cursors_not_monotone:
  "fetch_snapshot (Suc 0) example_settings regressing_environment idle_collaborators
     sync_only_context example_world = Some (Inr (), first_run_world)
   \<and> fetch_snapshot (Suc (Suc 0)) example_settings regressing_environment idle_collaborators
       sync_only_context first_run_world = Some (Inr (), second_run_world)
   \<and> lastSyncBlock (config_row second_run_world) < lastSyncBlock (config_row first_run_world)
   \<and> fetch_snapshot (Suc 0) example_settings quiet_environment idle_collaborators
       sync_only_context low_lag_world = Some (Inr (), raised_lag_world)
   \<and> snapshotBlockLag (config_row low_lag_world) < snapshotBlockLag (config_row raised_lag_world)
   \<and> fetch_snapshot (Suc 0) example_settings young_chain_environment idle_collaborators
       liquidator_context example_world = Some (Inr (), negative_run_world)
   \<and> lastSnapshotBlock (config_row negative_run_world) < lastSnapshotBlock (config_row example_world)"
  using first_run second_run low_lag_run negative_run
  by (simp add: orchestrator_examples example_defs)

text \<open>
  Claim C2, amended. Every successful run of the pipeline resolves a block \<open>b\<close>: its
  last pass goes through the seven entities at the number of \<open>b\<close>. After the run
  \<^item> \<open>lastSyncBlock\<close> is the number of \<open>b\<close> (nothing keeps it from decreasing);
  \<^item> \<open>snapshotBlockLag\<close> is at least the floor;
  \<^item> \<open>lastSnapshotBlock\<close> is unchanged when no snapshot was requested, and otherwise it is
    the number of \<open>b\<close>, which is greater than the value before unless that was \<open>0\<close>; so it
    has not decreased if it was not \<open>0\<close> before or if the number of \<open>b\<close> is not negative;
  \<^item> when no call of the first pass raised, \<open>lastSyncBlock\<close> is the chain head minus the
    lag the run started with, the new lag is the maximum of that lag minus the step and
    the floor, and the lag has not increased if it was at least the floor and the step is
    not negative;
  \<^item> when a call of the first pass raised an indexer-lag error with number \<open>N\<close> and the
    second pass succeeded, the error has set the lag to the re-read head minus \<open>N\<close>:
    \<open>lastSyncBlock\<close> is the next head minus that lag and the new lag is the maximum of
    that lag minus the step and the floor.
\<close>

theorem pipeline_run_cursors:
  assumes run: "fetch_snapshot fuel st env co ctx w = Some (Inr (), w')"
  shows "\<exists>b w1. sync_data fuel st env w = Some (Inr b, w1)
       \<and> (\<exists>pre. sync_log w1 = pre @ map (\<lambda>e. (e, block_number b)) entity_order)
       \<and> lastSyncBlock (config_row w') = block_number b
       \<and> SNAPSHOT_BLOCK_LAG st \<le> snapshotBlockLag (config_row w')
       \<and> (\<not> get_snapshot ctx \<longrightarrow>
            lastSnapshotBlock (config_row w') = lastSnapshotBlock (config_row w))
       \<and> (get_snapshot ctx \<longrightarrow>
            lastSnapshotBlock (config_row w') = block_number b
            \<and> (lastSnapshotBlock (config_row w) = 0
                \<or> lastSnapshotBlock (config_row w) < lastSnapshotBlock (config_row w')))
       \<and> (lastSnapshotBlock (config_row w) \<noteq> 0 \<or> 0 \<le> block_number b \<longrightarrow>
            lastSnapshotBlock (config_row w) \<le> lastSnapshotBlock (config_row w'))
       \<and> ((\<forall>k<7. subgraph_sync env (sync_calls w + k) = Synced) \<longrightarrow>
            lastSyncBlock (config_row w') =
              latest_number env (head_reads w) - snapshotBlockLag (config_row w)
            \<and> snapshotBlockLag (config_row w') =
                max (snapshotBlockLag (config_row w) - SNAPSHOT_BLOCK_LAG_STEP st)
                    (SNAPSHOT_BLOCK_LAG st)
            \<and> (SNAPSHOT_BLOCK_LAG st \<le> snapshotBlockLag (config_row w)
                 \<and> 0 \<le> SNAPSHOT_BLOCK_LAG_STEP st \<longrightarrow>
               snapshotBlockLag (config_row w') \<le> snapshotBlockLag (config_row w)))
       \<and> (j < 7 \<and> (\<forall>k<j. subgraph_sync env (sync_calls w + k) = Synced)
            \<and> subgraph_sync env (sync_calls w + j) = Raised msg
            \<and> str_contains ''only indexed up to block number'' msg
            \<and> re_search msg = Some ds
            \<and> (\<forall>k<7. subgraph_sync env (sync_calls w + Suc j + k) = Synced) \<longrightarrow>
            lastSyncBlock (config_row w') =
              latest_number env (head_reads w + 2)
              - (latest_number env (Suc (head_reads w)) - int_of_digits ds)
            \<and> snapshotBlockLag (config_row w') =
                max (latest_number env (Suc (head_reads w)) - int_of_digits ds
                     - SNAPSHOT_BLOCK_LAG_STEP st)
                    (SNAPSHOT_BLOCK_LAG st))"
proof -
  from run obtain b w1 where sync: "sync_data fuel st env w = Some (Inr b, w1)"
    and rest: "(get_snapshot ctx \<and> do_fetch_snapshot st env co ctx b w1 = (Inr (), w'))
               \<or> (\<not> get_snapshot ctx \<and> w' = w1)"
    by (auto simp: fetch_snapshot_def split: option.splits prod.splits sum.splits if_splits)
  note s = sync_data_returns [OF sync]
  note d = do_fetch_snapshot_returns [of st env co ctx b w1 w']
  have lag: "snapshotBlockLag (config_row w') = snapshotBlockLag (config_row w1)"
    and syn: "lastSyncBlock (config_row w') = lastSyncBlock (config_row w1)"
    using rest d by auto
  have log: "\<exists>pre. sync_log w1 = pre @ map (\<lambda>e. (e, block_number b)) entity_order"
    using s by simp
  have resolved: "lastSyncBlock (config_row w') = block_number b"
    using s syn by simp
  have floor: "SNAPSHOT_BLOCK_LAG st \<le> snapshotBlockLag (config_row w')"
    using s lag by simp
  have unchanged: "\<not> get_snapshot ctx \<longrightarrow>
            lastSnapshotBlock (config_row w') = lastSnapshotBlock (config_row w)"
    using rest s by auto
  have taken: "get_snapshot ctx \<longrightarrow>
            lastSnapshotBlock (config_row w') = block_number b
            \<and> (lastSnapshotBlock (config_row w) = 0
                \<or> lastSnapshotBlock (config_row w) < lastSnapshotBlock (config_row w'))"
    using rest s d by auto
  have snap: "lastSnapshotBlock (config_row w) \<noteq> 0 \<or> 0 \<le> block_number b \<longrightarrow>
            lastSnapshotBlock (config_row w) \<le> lastSnapshotBlock (config_row w')"
    using unchanged taken by (cases "get_snapshot ctx") auto
  have quiet: "lastSyncBlock (config_row w') =
              latest_number env (head_reads w) - snapshotBlockLag (config_row w)
            \<and> snapshotBlockLag (config_row w') =
                max (snapshotBlockLag (config_row w) - SNAPSHOT_BLOCK_LAG_STEP st)
                    (SNAPSHOT_BLOCK_LAG st)
            \<and> (SNAPSHOT_BLOCK_LAG st \<le> snapshotBlockLag (config_row w)
                 \<and> 0 \<le> SNAPSHOT_BLOCK_LAG_STEP st \<longrightarrow>
               snapshotBlockLag (config_row w') \<le> snapshotBlockLag (config_row w))"
    if ok: "\<forall>k<7. subgraph_sync env (sync_calls w + k) = Synced"
  proof -
    from sync obtain n where fuel: "fuel = Suc n" by (cases fuel) auto
    from sync_data_pass_succeeds [OF ok, of n st] sync fuel
    have "config_row w1 = (config_row w)\<lparr>lastSyncBlock := pass_target env w,
              snapshotBlockLag := max (snapshotBlockLag (config_row w) - SNAPSHOT_BLOCK_LAG_STEP st)
                                      (SNAPSHOT_BLOCK_LAG st)\<rparr>"
      by auto
    then show ?thesis using lag syn by (auto simp: pass_target_def)
  qed
  have recovered: "lastSyncBlock (config_row w') =
              latest_number env (head_reads w + 2)
              - (latest_number env (Suc (head_reads w)) - int_of_digits ds)
            \<and> snapshotBlockLag (config_row w') =
                max (latest_number env (Suc (head_reads w)) - int_of_digits ds
                     - SNAPSHOT_BLOCK_LAG_STEP st)
                    (SNAPSHOT_BLOCK_LAG st)"
    if j: "j < 7" and before: "\<forall>k<j. subgraph_sync env (sync_calls w + k) = Synced"
      and raised: "subgraph_sync env (sync_calls w + j) = Raised msg"
      and only: "str_contains ''only indexed up to block number'' msg"
      and parsed: "re_search msg = Some ds"
      and after: "\<forall>k<7. subgraph_sync env (sync_calls w + Suc j + k) = Synced"
  proof -
    let ?lag = "latest_number env (Suc (head_reads w)) - int_of_digits ds"
    let ?w' = "w\<lparr>sync_calls := sync_calls w + Suc j,
                sync_log := sync_log w @ map (\<lambda>e. (e, pass_target env w)) (take (Suc j) entity_order),
                head_reads := head_reads w + 2,
                config_row := (config_row w)\<lparr>snapshotBlockLag := ?lag\<rparr>,
                committed_config := (config_row w)\<lparr>snapshotBlockLag := ?lag\<rparr>\<rparr>"
    from sync obtain n where fuel: "fuel = Suc n" by (cases fuel) auto
    have step: "sync_data n st env ?w' = Some (Inr b, w1)"
      using sync_data_lag_step [OF j before raised only parsed, of n st] sync fuel by simp
    then obtain m where n: "n = Suc m" by (cases n) auto
    have ok': "\<forall>k<7. subgraph_sync env (sync_calls ?w' + k) = Synced"
      using after by simp
    from sync_data_pass_succeeds [OF ok', of m st] step n
    have "config_row w1 = (config_row ?w')\<lparr>lastSyncBlock := pass_target env ?w',
              snapshotBlockLag := max (snapshotBlockLag (config_row ?w') - SNAPSHOT_BLOCK_LAG_STEP st)
                                      (SNAPSHOT_BLOCK_LAG st)\<rparr>"
      by auto
    then show ?thesis using lag syn by (auto simp: pass_target_def)
  qed
  show ?thesis
    using sync log resolved floor unchanged taken snap quiet recovered by blast
qed

text \<open>
  Two runs with a snapshot, at chain head 1050 with lag 20, step 1 and floor 10. In the
  first no call raises: the run commits \<open>lastSyncBlock = lastSnapshotBlock = 1050 - 20\<close>
  and the lag \<open>19\<close>. In the second the first call raises with ``only indexed up to block
  number 1000'': the run commits \<open>lastSyncBlock = lastSnapshotBlock = 1050 - (1050 - 1000)\<close>
  and the lag \<open>(1050 - 1000) - 1\<close>.
\<close>

theorem pipeline_run_cursors_example:
  "fetch_snapshot (Suc 0) example_settings quiet_environment idle_collaborators
     liquidator_context example_world = Some (Inr (), snapshot_run_world)
   \<and> lastSyncBlock (config_row snapshot_run_world) = 1050 - 20
   \<and> lastSnapshotBlock (config_row snapshot_run_world) = lastSyncBlock (config_row snapshot_run_world)
   \<and> lastSnapshotBlock (config_row example_world) \<le> lastSnapshotBlock (config_row snapshot_run_world)
   \<and> snapshotBlockLag (config_row snapshot_run_world) = max (20 - 1) 10
   \<and> snapshotBlockLag (config_row snapshot_run_world) \<le> snapshotBlockLag (config_row example_world)
   \<and> fetch_snapshot (Suc (Suc 0)) example_settings lagging_environment idle_collaborators
       liquidator_context example_world = Some (Inr (), recovered_run_world)
   \<and> lastSyncBlock (config_row recovered_run_world) = 1050 - (1050 - 1000)
   \<and> lastSnapshotBlock (config_row recovered_run_world) = lastSyncBlock (config_row recovered_run_world)
   \<and> snapshotBlockLag (config_row recovered_run_world) = max (1050 - 1000 - 1) 10"
proof -
  have start: "sync_calls example_world = 0" "head_reads example_world = 0"
    "snapshotBlockLag (config_row example_world) = 20"
    "lastSnapshotBlock (config_row example_world) = 0"
    "SNAPSHOT_BLOCK_LAG example_settings = 10" "SNAPSHOT_BLOCK_LAG_STEP example_settings = 1"
    "get_snapshot liquidator_context"
    by (simp_all add: orchestrator_examples example_defs)
  have env: "\<And>k. latest_number quiet_environment k = 1050"
    "\<And>k. latest_number lagging_environment k = 1050"
    by (simp_all add: lagging_environment_def quiet_environment_def)
  have ok: "\<forall>k<7. subgraph_sync quiet_environment (sync_calls example_world + k) = Synced"
    by (simp add: quiet_environment_def)
  have lagging: "(0::nat) < 7
      \<and> (\<forall>k<0::nat. subgraph_sync lagging_environment (sync_calls example_world + k) = Synced)
      \<and> subgraph_sync lagging_environment (sync_calls example_world + 0) = Raised lag_message
      \<and> str_contains ''only indexed up to block number'' lag_message
      \<and> re_search lag_message = Some ''1000''
      \<and> (\<forall>k<7. subgraph_sync lagging_environment (sync_calls example_world + Suc 0 + k) = Synced)"
    using lag_message_only lag_message_parsed
    by (simp add: lagging_environment_def quiet_environment_def start)
  have first: "lastSnapshotBlock (config_row snapshot_run_world) = lastSyncBlock (config_row snapshot_run_world)
      \<and> lastSnapshotBlock (config_row example_world) \<le> lastSnapshotBlock (config_row snapshot_run_world)
      \<and> lastSyncBlock (config_row snapshot_run_world) = 1050 - 20
      \<and> snapshotBlockLag (config_row snapshot_run_world) = max (20 - 1) 10
      \<and> snapshotBlockLag (config_row snapshot_run_world) \<le> snapshotBlockLag (config_row example_world)"
    using pipeline_run_cursors [OF snapshot_run, where j = 0 and msg = lag_message and ds = "''1000''"]
  proof (elim exE conjE)
    fix b w1
    assume resolved: "lastSyncBlock (config_row snapshot_run_world) = block_number b"
      and taken: "get_snapshot liquidator_context \<longrightarrow>
         lastSnapshotBlock (config_row snapshot_run_world) = block_number b \<and>
         (lastSnapshotBlock (config_row example_world) = 0 \<or>
          lastSnapshotBlock (config_row example_world)
          < lastSnapshotBlock (config_row snapshot_run_world))"
      and quiet: "(\<forall>k<7. subgraph_sync quiet_environment (sync_calls example_world + k) = Synced) \<longrightarrow>
         lastSyncBlock (config_row snapshot_run_world) =
         latest_number quiet_environment (head_reads example_world) -
         snapshotBlockLag (config_row example_world) \<and>
         snapshotBlockLag (config_row snapshot_run_world) =
         max (snapshotBlockLag (config_row example_world) -
              SNAPSHOT_BLOCK_LAG_STEP example_settings)
          (SNAPSHOT_BLOCK_LAG example_settings) \<and>
         (SNAPSHOT_BLOCK_LAG example_settings
          \<le> snapshotBlockLag (config_row example_world) \<and>
          0 \<le> SNAPSHOT_BLOCK_LAG_STEP example_settings \<longrightarrow>
          snapshotBlockLag (config_row snapshot_run_world)
          \<le> snapshotBlockLag (config_row example_world))"
    from quiet ok have q: "lastSyncBlock (config_row snapshot_run_world) =
         latest_number quiet_environment (head_reads example_world) -
         snapshotBlockLag (config_row example_world)"
      "snapshotBlockLag (config_row snapshot_run_world) =
         max (snapshotBlockLag (config_row example_world) -
              SNAPSHOT_BLOCK_LAG_STEP example_settings)
          (SNAPSHOT_BLOCK_LAG example_settings)"
      by blast+
    from taken start(7) have t: "lastSnapshotBlock (config_row snapshot_run_world) = block_number b"
      by blast
    show ?thesis
      using resolved t q by (simp add: env start)
  qed
  have second: "lastSnapshotBlock (config_row recovered_run_world) = lastSyncBlock (config_row recovered_run_world)
      \<and> lastSyncBlock (config_row recovered_run_world) = 1050 - (1050 - 1000)
      \<and> snapshotBlockLag (config_row recovered_run_world) = max (1050 - 1000 - 1) 10"
    using pipeline_run_cursors [OF recovered_run, where j = 0 and msg = lag_message and ds = "''1000''"]
  proof (elim exE conjE)
    fix b w1
    assume resolved: "lastSyncBlock (config_row recovered_run_world) = block_number b"
      and taken: "get_snapshot liquidator_context \<longrightarrow>
         lastSnapshotBlock (config_row recovered_run_world) = block_number b \<and>
         (lastSnapshotBlock (config_row example_world) = 0 \<or>
          lastSnapshotBlock (config_row example_world)
          < lastSnapshotBlock (config_row recovered_run_world))"
      and recovered: "(0::nat) < 7 \<and>
         (\<forall>k<0::nat. subgraph_sync lagging_environment (sync_calls example_world + k) = Synced) \<and>
         subgraph_sync lagging_environment (sync_calls example_world + 0) = Raised lag_message \<and>
         str_contains ''only indexed up to block number'' lag_message \<and>
         re_search lag_message = Some ''1000'' \<and>
         (\<forall>k<7. subgraph_sync lagging_environment (sync_calls example_world + Suc 0 + k) = Synced) \<longrightarrow>
         lastSyncBlock (config_row recovered_run_world) =
         latest_number lagging_environment (head_reads example_world + 2) -
         (latest_number lagging_environment (Suc (head_reads example_world)) -
          int_of_digits ''1000'') \<and>
         snapshotBlockLag (config_row recovered_run_world) =
         max (latest_number lagging_environment (Suc (head_reads example_world)) -
              int_of_digits ''1000'' -
              SNAPSHOT_BLOCK_LAG_STEP example_settings)
          (SNAPSHOT_BLOCK_LAG example_settings)"
    from recovered lagging have r: "lastSyncBlock (config_row recovered_run_world) =
         latest_number lagging_environment (head_reads example_world + 2) -
         (latest_number lagging_environment (Suc (head_reads example_world)) -
          int_of_digits ''1000'')"
      "snapshotBlockLag (config_row recovered_run_world) =
         max (latest_number lagging_environment (Suc (head_reads example_world)) -
              int_of_digits ''1000'' -
              SNAPSHOT_BLOCK_LAG_STEP example_settings)
          (SNAPSHOT_BLOCK_LAG example_settings)"
      by blast+
    from taken start(7) have t: "lastSnapshotBlock (config_row recovered_run_world) = block_number b"
      by blast
    show ?thesis
      using resolved t r by (simp add: env start int_of_1000)
  qed
  show ?thesis
    using snapshot_run recovered_run first second by simp
qed

end
